theory Spec2Isabelle
  imports Main "HOL-Library.Multiset"
begin

section \<open>JavaScript values used by the middleware\<close>

text \<open>
  Query parameters, XML attributes and environment variables are JavaScript strings or
  \<open>undefined\<close>/\<open>null\<close>. A string is a \<^typ>\<open>string\<close>; a value that may be absent is a
  \<^typ>\<open>string option\<close>. JavaScript truthiness of such a value: absent and the empty
  string are falsy, every other string is truthy.
\<close>

definition truthy :: "string option \<Rightarrow> bool" where
  "truthy v = (case v of None \<Rightarrow> False | Some s \<Rightarrow> s \<noteq> [])"

text \<open>\<open>String(v || '')\<close>\<close>

definition strOrEmpty :: "string option \<Rightarrow> string" where
  "strOrEmpty v = (case v of None \<Rightarrow> [] | Some s \<Rightarrow> s)"

text \<open>\<open>a || b\<close> on possibly absent strings, and \<open>a || null\<close>.\<close>

definition orElse :: "string option \<Rightarrow> string option \<Rightarrow> string option" where
  "orElse a b = (if truthy a then a else b)"

definition orNull :: "string option \<Rightarrow> string option" where
  "orNull a = (if truthy a then a else None)"

text \<open>\<open>String.prototype.startsWith\<close>\<close>

fun startsWith :: "string \<Rightarrow> string \<Rightarrow> bool" where
  "startsWith s [] = True"
| "startsWith [] (c # cs) = False"
| "startsWith (x # xs) (c # cs) = (x = c \<and> startsWith xs cs)"

subsection \<open>Characters, numbers and trimming\<close>

text \<open>
  A \<^typ>\<open>char\<close> stands for one UTF-16 code unit below 256. \<open>\d\<close> in a JavaScript
  regular expression matches the ASCII digits only.
\<close>

definition isDigit :: "char \<Rightarrow> bool" where
  "isDigit c = (c \<in> set ''0123456789'')"

definition digitVal :: "char \<Rightarrow> nat" where
  "digitVal c = of_char c - 48"

text \<open>The value of a run of decimal digits, most significant first.\<close>

definition decVal :: "string \<Rightarrow> nat" where
  "decVal ds = foldl (\<lambda>a c. 10 * a + digitVal c) 0 ds"

text \<open>
  White space and line terminators stripped by \<open>trim\<close> and skipped by \<open>parseInt\<close>:
  TAB, LF, VT, FF, CR, SP and NBSP (the ones below 256).
\<close>

definition isWs :: "char \<Rightarrow> bool" where
  "isWs c = ((of_char c :: nat) \<in> {9, 10, 11, 12, 13, 32, 160})"

definition trim :: "string \<Rightarrow> string" where
  "trim s = rev (dropWhile isWs (rev (dropWhile isWs s)))"

text \<open>
  \<open>parseInt(s, 10)\<close>: leading white space is skipped, one sign is accepted, then the
  longest run of digits is read and the rest ignored; with no digit the result is
  \<open>NaN\<close>, here \<open>None\<close>. Numbers are unbounded integers, which the code's doubles are
  up to \<open>Number.MAX_SAFE_INTEGER\<close>; above it the code has the double nearest to the
  integer here, and \<open>Infinity\<close> from \<open>2^1024 - 2^970\<close> on (round to nearest, ties to even).
  \<open>isFiniteNumber\<close> is \<open>Number.isFinite\<close> of the double of an integer.
\<close>

definition maxSafeInteger :: int where
  "maxSafeInteger = 2 ^ 53 - 1"

definition isFiniteNumber :: "int \<Rightarrow> bool" where
  "isFiniteNumber n = (\<bar>n\<bar> < 2 ^ 1024 - 2 ^ 970)"

definition parseInt10 :: "string \<Rightarrow> int option" where
  "parseInt10 s =
     (let t = dropWhile isWs s;
          neg = (case t of [] \<Rightarrow> False | c # _ \<Rightarrow> c = CHR ''-'');
          u = (case t of [] \<Rightarrow> [] | c # r \<Rightarrow> if c = CHR ''-'' \<or> c = CHR ''+'' then r else t);
          ds = takeWhile isDigit u
      in if ds = [] then None
         else Some (if neg then - int (decVal ds) else int (decVal ds)))"

text \<open>Decimal rendering of a number in a template string.\<close>

definition digitChar :: "nat \<Rightarrow> char" where
  "digitChar n = ''0123456789'' ! n"

fun showNat :: "nat \<Rightarrow> string" where
  "showNat n = (if n < 10 then [digitChar n] else showNat (n div 10) @ [digitChar (n mod 10)])"

declare showNat.simps [simp del]

definition showInt :: "int \<Rightarrow> string" where
  "showInt i = (if i < 0 then CHR ''-'' # showNat (nat (- i)) else showNat (nat i))"

section \<open>Recording retrieval and cache (api/acr.js)\<close>

subsection \<open>Cache file names and paths\<close>

text \<open>The character class \<open>[a-zA-Z0-9._-]\<close>.\<close>

definition safeChar :: "char \<Rightarrow> bool" where
  "safeChar c =
     (c \<in> set ''abcdefghijklmnopqrstuvwxyzABCDEFGHIJKLMNOPQRSTUVWXYZ0123456789._-'')"

text \<open>\<open>String(s || '').replace(/[^a-zA-Z0-9._-]/g, '_').slice(0, 128)\<close>\<close>

definition safeName :: "string option \<Rightarrow> string" where
  "safeName s = take 128 (map (\<lambda>c. if safeChar c then c else CHR ''_'') (strOrEmpty s))"

text \<open>
  Node's \<open>path.join\<close> concatenates its arguments with a separator and normalises the
  result: empty and \<open>.\<close> segments disappear and a \<open>..\<close> segment removes the directory
  before it. A path is kept as the list of its normalised segments, outermost first;
  both \<open>/\<close> and the backslash separate segments, as on Windows, where the service runs.
\<close>

type_synonym path = "string list"

definition isSep :: "char \<Rightarrow> bool" where
  "isSep c = (c = CHR ''/'' \<or> c = CHR 0x5C)"

fun splitPath :: "string \<Rightarrow> string \<Rightarrow> string list" where
  "splitPath cur [] = [rev cur]"
| "splitPath cur (c # cs) =
     (if isSep c then rev cur # splitPath [] cs else splitPath (c # cur) cs)"

text \<open>
  The stack of directories entered so far, innermost first. A \<open>..\<close> that cannot go up
  (empty stack or another \<open>..\<close> on top) is kept, as for a relative path.
\<close>

fun normalizeSegs :: "string list \<Rightarrow> string list \<Rightarrow> string list" where
  "normalizeSegs st [] = rev st"
| "normalizeSegs st (g # gs) =
     (if g = [] \<or> g = ''.'' then normalizeSegs st gs
      else if g = ''..'' then
        (case st of
           [] \<Rightarrow> normalizeSegs [g] gs
         | t # ts \<Rightarrow> if t = ''..'' then normalizeSegs (g # st) gs else normalizeSegs ts gs)
      else normalizeSegs (g # st) gs)"

definition pathJoin :: "string \<Rightarrow> string \<Rightarrow> path" where
  "pathJoin dir name = normalizeSegs [] (splitPath [] dir @ splitPath [] name)"

record local_paths =
  raw :: path
  wav :: path
  meta :: path

text \<open>\<open>localPathsFor(inum)\<close>, with the module constant \<open>MEDIA_ROOT\<close> as first argument.\<close>

definition localPathsFor :: "string \<Rightarrow> string option \<Rightarrow> local_paths" where
  "localPathsFor MEDIA_ROOT inum =
     (let base = safeName inum in
      \<lparr> raw = pathJoin MEDIA_ROOT (base @ ''.raw.bin''),
        wav = pathJoin MEDIA_ROOT (base @ ''.wav''),
        meta = pathJoin MEDIA_ROOT (base @ ''.json'') \<rparr>)"

subsection \<open>Range-aware streaming of a local file\<close>

text \<open>
  \<open>/bytes=(\d+)-(\d*)/.exec(range)\<close>. The pattern is not anchored: \<open>exec\<close> returns the
  leftmost position where it matches. \<open>matchAt\<close> is the match at the start of a string:
  the literal, the longest run of digits (at least one), a hyphen, and the longest run of
  digits after it; the two runs are the capture groups.
\<close>

definition matchAt :: "string \<Rightarrow> (string \<times> string) option" where
  "matchAt s =
     (if startsWith s ''bytes='' then
        (let r = drop 6 s; d1 = takeWhile isDigit r; r2 = dropWhile isDigit r in
         if d1 \<noteq> [] \<and> startsWith r2 ''-'' then Some (d1, takeWhile isDigit (drop 1 r2))
         else None)
      else None)"

fun execRange :: "string \<Rightarrow> (string \<times> string) option" where
  "execRange [] = None"
| "execRange (c # cs) =
     (case matchAt (c # cs) of Some m \<Rightarrow> Some m | None \<Rightarrow> execRange cs)"

text \<open>
  The numbers of a \<open>Range\<close> header are doubles: exact up to \<open>Number.MAX_SAFE_INTEGER\<close>,
  rounded above it. A header value is a string, an exact number, or \<open>HInexact\<close>: a value
  computed from a rounded double, which is not computed here.
\<close>

datatype header_value = HStr string | HNum int | HInexact

text \<open>
  \<open>fs.createReadStream(filePath, { start, end })\<close> checks its interval before any byte is
  read. The start must be an integer from 0 to \<open>Number.MAX_SAFE_INTEGER\<close>; so must the
  end, unless it is \<open>Infinity\<close>, which reads to the end of the file; and the start must
  not lie beyond the end. Otherwise it throws a \<open>RangeError\<close>, which leaves \<open>streamFile\<close>
  after the status and the headers were set. The arguments here are the exact values of
  the digit runs; a double rounded from a value above \<open>Number.MAX_SAFE_INTEGER\<close> is above it
  too.
\<close>

datatype stream_body = WholeFile | ByteRange int int | FromOffset int | RangeError

definition createReadStream :: "int \<Rightarrow> int \<Rightarrow> stream_body" where
  "createReadStream start' end' =
     (if start' < 0 \<or> maxSafeInteger < start' then RangeError
      else if maxSafeInteger < end' then (if isFiniteNumber end' then RangeError else FromOffset start')
      else if end' < 0 \<or> end' < start' then RangeError
      else ByteRange start' end')"

text \<open>
  What \<open>streamFile\<close> sets on the response, and what becomes of the file stream it
  pipes into it.
\<close>

record stream_response =
  status :: nat
  headers :: "(string \<times> header_value) list"
  body :: stream_body

definition commonHeaders :: "string \<Rightarrow> (string \<times> header_value) list" where
  "commonHeaders contentType =
     [(''Access-Control-Allow-Origin'', HStr ''*''),
      (''Accept-Ranges'', HStr ''bytes''),
      (''Content-Type'', HStr contentType)]"

text \<open>
  \<open>streamFile(filePath, req, res, contentType)\<close>; \<open>total'\<close> is the size of the file
  (\<open>total\<close> in the source), a number of bytes that \<open>statSync\<close> reports exactly, and \<open>range'\<close>
  the request's \<open>Range\<close> header (\<open>range\<close>). Both groups are runs of digits, so \<open>parseInt\<close> of
  a non-empty one is its decimal value, up to \<open>Number.MAX_SAFE_INTEGER\<close>; when the start or
  the end is above it, the two headers are computed from rounded doubles.
\<close>

definition streamFile :: "nat \<Rightarrow> string option \<Rightarrow> string \<Rightarrow> stream_response" where
  "streamFile total' range' contentType =
     (case (if truthy range' then execRange (strOrEmpty range') else None) of
        Some (g1, g2) \<Rightarrow>
          (let start' = int (decVal g1);
               end' = (if g2 \<noteq> [] then int (decVal g2) else int total' - 1);
               exact = (start' \<le> maxSafeInteger \<and> end' \<le> maxSafeInteger)
           in \<lparr> status = 206,
                headers = commonHeaders contentType @
                  [(''Content-Range'',
                      if exact
                      then HStr (''bytes '' @ showInt start' @ ''-'' @ showInt end' @ ''/'' @ showNat total')
                      else HInexact),
                   (''Content-Length'', if exact then HNum (end' - start' + 1) else HInexact)],
                body = createReadStream start' end' \<rparr>)
      | None \<Rightarrow>
          \<lparr> status = 200,
            headers = commonHeaders contentType @ [(''Content-Length'', HNum (int total'))],
            body = WholeFile \<rparr>)"


subsection \<open>Dates and the search window\<close>

text \<open>
  A \<open>Date\<close> at local midnight is kept as its calendar fields (year, month 1..12, day).
  \<open>new Date(y, m - 1, d)\<close> and \<open>setDate\<close> accept a day beyond the end of the month and
  carry it into the following months; \<open>rollDate\<close> is that carry, for a day of at least 1.
  The local time zone is taken to have every calendar day.
\<close>

type_synonym ymd = "int \<times> int \<times> int"

definition isLeap :: "int \<Rightarrow> bool" where
  "isLeap y = (y mod 4 = 0 \<and> (y mod 100 \<noteq> 0 \<or> y mod 400 = 0))"

definition daysInMonth :: "int \<Rightarrow> int \<Rightarrow> int" where
  "daysInMonth y m =
     (if m = 2 then (if isLeap y then 29 else 28)
      else if m = 4 \<or> m = 6 \<or> m = 9 \<or> m = 11 then 30 else 31)"

function rollDate :: "int \<Rightarrow> int \<Rightarrow> int \<Rightarrow> ymd" where
  "rollDate y m d =
     (if d > daysInMonth y m
      then (if m = 12 then rollDate (y + 1) 1 (d - daysInMonth y m)
            else rollDate y (m + 1) (d - daysInMonth y m))
      else (y, m, d))"
  by pat_completeness auto
termination
  by (relation "measure (\<lambda>(y, m, d). nat d)") (auto simp: daysInMonth_def split: if_splits)

declare rollDate.simps [simp del]

text \<open>The pattern \<open>/^\d{4}-\d{2}-\d{2}$/\<close>.\<close>

definition ymdShape :: "string \<Rightarrow> bool" where
  "ymdShape s =
     (length s = 10 \<and> list_all isDigit (take 4 s) \<and> s ! 4 = CHR ''-''
      \<and> list_all isDigit (take 2 (drop 5 s)) \<and> s ! 7 = CHR ''-''
      \<and> list_all isDigit (drop 8 s))"

text \<open>
  \<open>parseYMD(ymd)\<close>. On a string of the shape above, \<open>split('-')\<close> gives the three runs
  of digits and \<open>parseInt\<close> their decimal values.
\<close>

definition parseYMD :: "string option \<Rightarrow> ymd option" where
  "parseYMD v =
     (let s = trim (strOrEmpty v) in
      if \<not> ymdShape s then None
      else
        (let y = int (decVal (take 4 s));
             m = int (decVal (take 2 (drop 5 s)));
             d = int (decVal (drop 8 s))
         in if y < 1970 \<or> y > 2100 then None
            else if m < 1 \<or> m > 12 then None
            else if d < 1 \<or> d > 31 then None
            else if rollDate y m d \<noteq> (y, m, d) then None
            else Some (y, m, d)))"

text \<open>
  A real calendar date written \<open>YYYY-MM-DD\<close>, in the words of the specification: the
  shape, a month from 1 to 12 and a day that the month has in that year.
\<close>

definition realCalendarDate :: "string \<Rightarrow> bool" where
  "realCalendarDate s =
     (ymdShape s
      \<and> 1 \<le> int (decVal (take 2 (drop 5 s))) \<and> int (decVal (take 2 (drop 5 s))) \<le> 12
      \<and> 1 \<le> int (decVal (drop 8 s))
      \<and> int (decVal (drop 8 s))
           \<le> daysInMonth (int (decVal (take 4 s))) (int (decVal (take 2 (drop 5 s)))))"

definition pad2 :: "int \<Rightarrow> string" where
  "pad2 n = (if length (showInt n) < 2 then CHR ''0'' # showInt n else showInt n)"

text \<open>\<open>toDDMMYY(d)\<close>; \<open>slice(-2)\<close> keeps the last two characters of the year.\<close>

definition toDDMMYY :: "ymd \<Rightarrow> string" where
  "toDDMMYY dt =
     (case dt of (y, m, d) \<Rightarrow>
        pad2 d @ ''/'' @ pad2 m @ ''/'' @ drop (length (showInt y) - 2) (showInt y))"

record acr_query =
  q_ucid :: "string option"
  q_number :: "string option"
  q_startdate :: "string option"
  q_enddate :: "string option"
  q_windowDays :: "string option"
  q_starttime :: "string option"
  q_endtime :: "string option"
  q_limit :: "string option"
  q_redirect :: "string option"
  q_local :: "string option"
  q_range :: "string option"

record window =
  w_start :: ymd
  w_end :: ymd
  w_p1 :: string
  w_p3 :: string

text \<open>
  \<open>computeRangeFromQuery(q)\<close>; a thrown \<open>Error\<close> is \<open>Inl\<close> of its message. The end date is
  the explicit one when \<open>enddate\<close> is non-empty; only otherwise is \<open>windowDays\<close> read, and
  it is read by \<open>parseInt\<close>: what follows its leading integer is ignored. The end of the
  window is the calendar day that many days on, which is the code's \<open>Date\<close> as long as a
  \<open>Date\<close> can hold it (a window of up to 99 000 000 days).
\<close>

definition computeRangeFromQuery :: "acr_query \<Rightarrow> string + window" where
  "computeRangeFromQuery q =
     (case parseYMD (q_startdate q) of
        None \<Rightarrow> Inl ''Invalid startdate (expected YYYY-MM-DD)''
      | Some start' \<Rightarrow>
          (let mk = (\<lambda>end'. Inr \<lparr> w_start = start', w_end = end',
                                  w_p1 = toDDMMYY start', w_p3 = toDDMMYY end' \<rparr>) in
           if truthy (q_enddate q) then
             (case parseYMD (q_enddate q) of
                None \<Rightarrow> Inl ''Invalid enddate (expected YYYY-MM-DD)''
              | Some end' \<Rightarrow> mk end')
           else
             (case q_windowDays q of
                Some w \<Rightarrow>
                  (case parseInt10 w of
                     None \<Rightarrow> Inl ''Invalid windowDays (must be positive integer)''
                   | Some wd \<Rightarrow>
                       if \<not> isFiniteNumber wd \<or> wd \<le> 0
                       then Inl ''Invalid windowDays (must be positive integer)''
                       else (case start' of (y, m, d) \<Rightarrow> mk (rollDate y m (d + wd))))
              | None \<Rightarrow> mk start')))"

text \<open>
  The test \<open>/^Invalid (startdate|enddate|windowDays)/\<close> that the handlers apply to the
  message of a caught error.
\<close>

definition isInputErr :: "string \<Rightarrow> bool" where
  "isInputErr msg =
     (startsWith msg ''Invalid startdate'' \<or> startsWith msg ''Invalid enddate''
      \<or> startsWith msg ''Invalid windowDays'')"

subsection \<open>Archive configuration, results and playback URLs\<close>

text \<open>
  What a call of a remote service, a subprocess or the file system gives back: a thrown
  error with its message, or a value.
\<close>

datatype 'a outcome = Throws string | Returns 'a

record acr_config =
  ACR_SCHEME :: string
  ACR_HOST :: string
  ACR_PORT :: string
  ACR_PATH :: string
  ACR_USER :: string
  ACR_PASS :: string
  MEDIA_ROOT :: string
  USE_LOCAL_DEFAULT :: bool

definition acrBase :: "acr_config \<Rightarrow> string" where
  "acrBase cfg = ACR_SCHEME cfg @ ''://'' @ ACR_HOST cfg @ '':'' @ ACR_PORT cfg @ ACR_PATH cfg"

text \<open>
  \<open>encodeURIComponent\<close>: letters, digits and \<open>- _ . ! ~ * ' ( )\<close> are kept, every other
  code unit is written as the \<open>%XX\<close> of its UTF-8 bytes (one byte below 128, two from 128
  to 255).
\<close>

definition hexDigit :: "nat \<Rightarrow> char" where
  "hexDigit n = ''0123456789ABCDEF'' ! n"

definition pctByte :: "nat \<Rightarrow> string" where
  "pctByte b = [CHR ''%'', hexDigit (b div 16), hexDigit (b mod 16)]"

definition uriUnreserved :: "char \<Rightarrow> bool" where
  "uriUnreserved c =
     (c \<in> set ''abcdefghijklmnopqrstuvwxyzABCDEFGHIJKLMNOPQRSTUVWXYZ0123456789-_.!~*()''
      \<or> c = CHR 0x27)"

definition encodeURIComponent :: "string \<Rightarrow> string" where
  "encodeURIComponent s =
     concat (map (\<lambda>c. if uriUnreserved c then [c]
                       else (let n = (of_char c :: nat) in
                             if n < 128 then pctByte n
                             else pctByte (192 + n div 64) @ pctByte (128 + n mod 64))) s)"

text \<open>\<open>buildReplayUrls(inum)\<close>: the archive's own replay URL and the proxied one.\<close>

definition buildReplayUrls :: "acr_config \<Rightarrow> string \<Rightarrow> string \<times> string" where
  "buildReplayUrls cfg inum =
     (acrBase cfg @ ''?command=replay&id='' @ encodeURIComponent inum,
      ''/api/acr/replay/'' @ encodeURIComponent inum)"

text \<open>
  One \<open>result\<close> element of the parsed XML: its \<open>inum\<close> attribute and, for each \<open>field\<close>
  child, the \<open>name\<close> attribute and the text.
\<close>

record acr_result =
  res_inum :: "string option"
  res_field :: "(string option \<times> string option) list"

definition lowerChar :: "char \<Rightarrow> char" where
  "lowerChar c =
     (case map_of (zip ''ABCDEFGHIJKLMNOPQRSTUVWXYZ'' ''abcdefghijklmnopqrstuvwxyz'') c of
        Some l \<Rightarrow> l | None \<Rightarrow> c)"

definition toLowerCase :: "string \<Rightarrow> string" where
  "toLowerCase s = map lowerChar s"

text \<open>
  \<open>mapResultFields(result)\<close>: the identifier or null, the fields as an object keyed by
  the lower-cased names (a later field of the same name replaces an earlier one), and
  the \<open>switchcallid\<close> field or null.
\<close>

definition fieldsObj :: "acr_result \<Rightarrow> string \<Rightarrow> string option" where
  "fieldsObj r name =
     (case map_of (rev (map (\<lambda>(n, v). (toLowerCase (strOrEmpty n), v)) (res_field r))) name of
        Some v \<Rightarrow> v | None \<Rightarrow> None)"

definition mapResultFields ::
  "acr_result \<Rightarrow> string option \<times> (string \<Rightarrow> string option) \<times> string option" where
  "mapResultFields r = (orNull (res_inum r), fieldsObj r, orNull (fieldsObj r ''switchcallid''))"

text \<open>A normalised recording record, also the payload of an audit row.\<close>

record item =
  it_ucid :: "string option"
  it_number :: "string option"
  it_inum :: string
  it_started_at :: "string option"
  it_duration_sec :: "int option"
  it_agents :: "string option"
  it_other_parties :: "string option"
  it_services :: "string option"
  it_skills :: "string option"
  it_playback_url :: string
  it_raw_playback_url :: "string option"

definition durationSec :: "string option \<Rightarrow> int option" where
  "durationSec v = (if truthy v then parseInt10 (strOrEmpty v) else None)"

text \<open>
  The record built for one result by \<open>/searchByNumber\<close>; \<open>None\<close> for a result without
  identifier, which \<open>filter(Boolean)\<close> then drops.
\<close>

definition numberItem :: "acr_config \<Rightarrow> string \<Rightarrow> acr_result \<Rightarrow> item option" where
  "numberItem cfg number r =
     (case mapResultFields r of (inum, fields', switchcallid) \<Rightarrow>
        (case inum of
           None \<Rightarrow> None
         | Some i \<Rightarrow>
             (case buildReplayUrls cfg i of (raw', proxied) \<Rightarrow>
                Some \<lparr> it_ucid = switchcallid, it_number = Some number, it_inum = i,
                       it_started_at = orNull (fields' ''startedat''),
                       it_duration_sec = durationSec (fields' ''duration''),
                       it_agents = orNull (fields' ''agents''),
                       it_other_parties = orNull (fields' ''otherparties''),
                       it_services = orNull (fields' ''services''),
                       it_skills = orNull (fields' ''skills''),
                       it_playback_url = proxied,
                       it_raw_playback_url = Some raw' \<rparr>)))"

definition numberItems :: "acr_config \<Rightarrow> string \<Rightarrow> acr_result list \<Rightarrow> item list" where
  "numberItems cfg number results = List.map_filter (numberItem cfg number) results"

subsection \<open>Newest first\<close>

text \<open>
  \<open>new Date(x.started_at || 0)\<close> as milliseconds: the epoch for a missing start time,
  otherwise what \<open>Date\<close> makes of the string, \<open>None\<close> for an invalid date (\<open>NaN\<close>). The
  parser of date strings is the environment's.
\<close>

definition startedMs :: "(string \<Rightarrow> int option) \<Rightarrow> item \<Rightarrow> int option" where
  "startedMs parseDate x =
     (case orNull (it_started_at x) of None \<Rightarrow> Some 0 | Some s \<Rightarrow> parseDate s)"

text \<open>The comparator \<open>(a, b) => new Date(b...) - new Date(a...)\<close>; \<open>None\<close> is \<open>NaN\<close>.\<close>

definition compareItems :: "(string \<Rightarrow> int option) \<Rightarrow> item \<Rightarrow> item \<Rightarrow> int option" where
  "compareItems parseDate a b =
     (case (startedMs parseDate b, startedMs parseDate a) of
        (Some tb, Some ta) \<Rightarrow> Some (tb - ta)
      | _ \<Rightarrow> None)"

text \<open>
  \<open>Array.prototype.sort\<close> is stable, and a comparator result that is zero or \<open>NaN\<close>
  leaves two elements in their order. For a consistent comparator the result is the one
  of a stable insertion sort: an element goes behind exactly those it must follow. With
  invalid dates the comparator is not consistent and the order is left to the engine.
\<close>

fun insertItem :: "(item \<Rightarrow> item \<Rightarrow> int option) \<Rightarrow> item \<Rightarrow> item list \<Rightarrow> item list" where
  "insertItem cmp x [] = [x]"
| "insertItem cmp x (y # ys) =
     (if (case cmp x y of Some v \<Rightarrow> v > 0 | None \<Rightarrow> False)
      then y # insertItem cmp x ys else x # y # ys)"

fun sortItems :: "(item \<Rightarrow> item \<Rightarrow> int option) \<Rightarrow> item list \<Rightarrow> item list" where
  "sortItems cmp [] = []"
| "sortItems cmp (x # xs) = insertItem cmp x (sortItems cmp xs)"

subsection \<open>The environment of the archive handlers and what they do to it\<close>

text \<open>
  The download: \<open>axios\<close> rejects, or answers with a status; a body is then piped to the
  raw file, which ends with an error (message and size of what was written so far) or
  with the whole body written.
\<close>

datatype download_outcome =
    DlNetworkError string
  | DlResponse nat "(string \<times> nat) + nat"

text \<open>
  The transcoder: it cannot be started, or it exits with a code; the second component
  is the size of the output file it leaves, \<open>None\<close> when it wrote none. In the
  environment, \<open>metaWritten\<close> is the size of the metadata file written (\<open>None\<close>: the write
  failed) and \<open>rawUnlinked\<close> tells whether the raw file could be removed.
\<close>

datatype transcode_outcome =
    TcSpawnError string
  | TcExit int "nat option"

record acr_env =
  searchOutcome :: "acr_result list outcome"
  parseDate :: "string \<Rightarrow> int option"
  download :: download_outcome
  transcode :: transcode_outcome
  metaWritten :: "nat option"
  rawUnlinked :: bool
  proxyStatus :: "nat outcome"

text \<open>The requests, subprocesses and audit inserts a handler issues, in order.\<close>

datatype acr_event =
    EvSearch "(string \<times> string) list"
  | EvAudit item
  | EvDownload string
  | EvTranscode path path
  | EvProxyReplay string "string option"

text \<open>The cache directory: the size of each file that exists.\<close>

type_synonym files = "path \<Rightarrow> nat option"

subsection \<open>Media cache\<close>

text \<open>\<open>downloadRawFromAcr(inum, outPath, ctx)\<close>\<close>

definition downloadRawFromAcr ::
  "acr_config \<Rightarrow> acr_env \<Rightarrow> files \<Rightarrow> string \<Rightarrow> path \<Rightarrow> unit outcome \<times> files \<times> acr_event list" where
  "downloadRawFromAcr cfg env fs inum outPath =
     (case download env of
        DlNetworkError msg \<Rightarrow> (Throws msg, fs, [EvDownload inum])
      | DlResponse st piped \<Rightarrow>
          if st < 200 \<or> st \<ge> 400
          then (Throws (''ACR GET failed ('' @ showNat st @ '')''), fs, [EvDownload inum])
          else (case piped of
                  Inl (msg, n) \<Rightarrow> (Throws msg, fs(outPath \<mapsto> n), [EvDownload inum])
                | Inr n \<Rightarrow> (Returns (), fs(outPath \<mapsto> n), [EvDownload inum])))"

text \<open>\<open>transcodeToWav(inPath, outPath, ctx)\<close>\<close>

definition transcodeToWav ::
  "acr_env \<Rightarrow> files \<Rightarrow> path \<Rightarrow> path \<Rightarrow> unit outcome \<times> files \<times> acr_event list" where
  "transcodeToWav env fs inPath outPath =
     (case transcode env of
        TcSpawnError msg \<Rightarrow> (Throws msg, fs, [EvTranscode inPath outPath])
      | TcExit code written \<Rightarrow>
          (let fs' = (case written of None \<Rightarrow> fs | Some n \<Rightarrow> fs(outPath \<mapsto> n)) in
           if code = 0 then (Returns (), fs', [EvTranscode inPath outPath])
           else (Throws (''ffmpeg exited '' @ showInt code), fs', [EvTranscode inPath outPath])))"

text \<open>
  \<open>ensureLocalWav(inum, ctx)\<close>: a non-empty cached file is returned at once; otherwise
  download, transcode, then the metadata file and the removal of the raw file, both
  best effort.
\<close>

definition ensureLocalWav ::
  "acr_config \<Rightarrow> acr_env \<Rightarrow> files \<Rightarrow> string \<Rightarrow> path outcome \<times> files \<times> acr_event list" where
  "ensureLocalWav cfg env fs inum =
     (let p = localPathsFor (MEDIA_ROOT cfg) (Some inum) in
      if (case fs (wav p) of None \<Rightarrow> False | Some n \<Rightarrow> n > 0) then (Returns (wav p), fs, [])
      else
        (case downloadRawFromAcr cfg env fs inum (raw p) of
           (Throws msg, fs1, tr1) \<Rightarrow> (Throws msg, fs1, tr1)
         | (Returns u, fs1, tr1) \<Rightarrow>
             (case transcodeToWav env fs1 (raw p) (wav p) of
                (Throws msg, fs2, tr2) \<Rightarrow> (Throws msg, fs2, tr1 @ tr2)
              | (Returns v, fs2, tr2) \<Rightarrow>
                  (let fs3 = (case metaWritten env of None \<Rightarrow> fs2 | Some n \<Rightarrow> fs2(meta p \<mapsto> n));
                       fs4 = (if rawUnlinked env then fs3(raw p := None) else fs3)
                   in (Returns (wav p), fs4, tr1 @ tr2)))))"

definition downloads :: "acr_event list \<Rightarrow> nat" where
  "downloads tr = length (filter (\<lambda>e. case e of EvDownload i \<Rightarrow> True | _ \<Rightarrow> False) tr)"

definition transcodes :: "acr_event list \<Rightarrow> nat" where
  "transcodes tr = length (filter (\<lambda>e. case e of EvTranscode a b \<Rightarrow> True | _ \<Rightarrow> False) tr)"

subsection \<open>Handlers\<close>

record resp_window =
  rw_start :: ymd
  rw_end :: ymd
  rw_p2 :: "string option"
  rw_p4 :: "string option"

datatype acr_body =
    Missing "string list"
  | Invalid string "string list"
  | Failure string
  | Found0 "resp_window option"
  | FoundItem nat item resp_window
  | FoundItems nat "item list" resp_window int
  | Text string
  | Redirect string
  | Streamed stream_response
  | Proxied

type_synonym acr_response = "nat \<times> acr_body"

text \<open>The \<open>catch\<close> block of \<open>/find\<close> and \<open>/searchByNumber\<close>.\<close>

definition onJsonError :: "acr_query \<Rightarrow> string \<Rightarrow> acr_response" where
  "onJsonError q msg =
     (if isInputErr msg
      then (400, Invalid msg (''startdate'' # (if truthy (q_enddate q) then [''enddate''] else [])))
      else (502, Failure msg))"

definition missingParams :: "(string \<times> string) list \<Rightarrow> string list" where
  "missingParams kvs = map fst (filter (\<lambda>(k, v). v = []) kvs)"

definition ucidSearchParams :: "window \<Rightarrow> string \<Rightarrow> (string \<times> string) list" where
  "ucidSearchParams w ucid =
     [(''command'', ''search''), (''operator_startedat'', ''9''),
      (''param1_startedat'', w_p1 w), (''param3_startedat'', w_p3 w),
      (''operator_switchcallid'', ''1''), (''param1_switchcallid'', ucid)]"

text \<open>The record \<open>/find\<close> and \<open>/replayByUcid\<close> build from the first result.\<close>

definition ucidItem ::
  "string option \<Rightarrow> string \<Rightarrow> (string \<Rightarrow> string option) \<Rightarrow> string \<Rightarrow> string option \<Rightarrow> item" where
  "ucidItem ucid inum fields' proxied raw' =
     \<lparr> it_ucid = ucid, it_number = None, it_inum = inum,
       it_started_at = orNull (fields' ''startedat''),
       it_duration_sec = durationSec (fields' ''duration''),
       it_agents = orNull (fields' ''agents''),
       it_other_parties = orNull (fields' ''otherparties''),
       it_services = orNull (fields' ''services''),
       it_skills = orNull (fields' ''skills''),
       it_playback_url = proxied,
       it_raw_playback_url = raw' \<rparr>"

text \<open>\<open>GET /api/acr/find\<close>: what follows the parsing of the archive's answer.\<close>

definition findResults ::
  "acr_config \<Rightarrow> window \<Rightarrow> acr_event \<Rightarrow> acr_result list \<Rightarrow> acr_response \<times> acr_event list" where
  "findResults cfg w req results =
     (case results of
        [] \<Rightarrow> ((200, Found0 None), [req])
      | r # rest \<Rightarrow>
          (case mapResultFields r of (inum, fields', switchcallid) \<Rightarrow>
             (case inum of
                None \<Rightarrow> ((502, Failure ''ACR returned no INUM''), [req])
              | Some i \<Rightarrow>
                  (case buildReplayUrls cfg i of (raw', proxied) \<Rightarrow>
                     (let payload = ucidItem None i fields' proxied (Some raw') in
                      ((200, FoundItem (length results) payload
                              \<lparr> rw_start = w_start w, rw_end = w_end w,
                                rw_p2 = None, rw_p4 = None \<rparr>),
                       [req, EvAudit payload]))))))"

text \<open>\<open>GET /api/acr/find\<close>\<close>

definition findHandler ::
  "acr_config \<Rightarrow> acr_env \<Rightarrow> acr_query \<Rightarrow> acr_response \<times> acr_event list" where
  "findHandler cfg env q =
     (let ucid = trim (strOrEmpty (q_ucid q));
          startdate = trim (strOrEmpty (q_startdate q));
          missing = missingParams [(''ucid'', ucid), (''startdate'', startdate)]
      in if missing \<noteq> [] then ((400, Missing missing), [])
         else
           (case computeRangeFromQuery (q\<lparr>q_startdate := Some startdate\<rparr>) of
              Inl msg \<Rightarrow> (onJsonError q msg, [])
            | Inr w \<Rightarrow>
                (case searchOutcome env of
                   Throws msg \<Rightarrow> (onJsonError q msg, [EvSearch (ucidSearchParams w ucid)])
                 | Returns results \<Rightarrow>
                     findResults cfg w (EvSearch (ucidSearchParams w ucid)) results)))"

text \<open>\<open>replayHandler(req, res)\<close>, the proxy to the archive's replay command.\<close>

definition replayHandler ::
  "acr_env \<Rightarrow> acr_query \<Rightarrow> string option \<Rightarrow> acr_response \<times> acr_event list" where
  "replayHandler env q inum =
     (if \<not> truthy inum then ((400, Text ''missing inum''), [])
      else
        (let i = strOrEmpty inum;
             row = \<lparr> it_ucid = orNull (q_ucid q), it_number = None, it_inum = i,
                     it_started_at = None, it_duration_sec = None, it_agents = None,
                     it_other_parties = None, it_services = None, it_skills = None,
                     it_playback_url = ''/api/acr/replay/'' @ encodeURIComponent i,
                     it_raw_playback_url = None \<rparr>
         in case proxyStatus env of
              Throws msg \<Rightarrow>
                ((502, Text (''ACR replay error: '' @ msg)), [EvAudit row, EvProxyReplay i (q_range q)])
            | Returns st \<Rightarrow> ((st, Proxied), [EvAudit row, EvProxyReplay i (q_range q)])))"

text \<open>The \<open>catch\<close> block of \<open>/replayByUcid\<close>; no header has been sent when it runs.\<close>

definition onTextError :: "string \<Rightarrow> acr_response" where
  "onTextError msg =
     (if isInputErr msg then (400, Text msg)
      else (502, Text (''ACR replayByUcid error: '' @ msg)))"

text \<open>\<open>/^1|true$/i.test(String(local))\<close>: a leading \<open>1\<close>, or \<open>true\<close> at the end.\<close>

definition localFlag :: "string \<Rightarrow> bool" where
  "localFlag l = (startsWith l ''1'' \<or> startsWith (rev (toLowerCase l)) ''eurt'')"

text \<open>
  \<open>GET /api/acr/replayByUcid\<close>, after the first result gave an identifier: audit row,
  then a redirect, the cached file, or the proxy. A failure of the cache, of \<open>statSync\<close>
  on the file or of the file stream is caught and falls back to the proxy.
\<close>

definition replayFound ::
  "acr_config \<Rightarrow> acr_env \<Rightarrow> files \<Rightarrow> acr_query \<Rightarrow> string \<Rightarrow> string \<Rightarrow>
     (string \<Rightarrow> string option) \<Rightarrow> acr_response \<times> files \<times> acr_event list" where
  "replayFound cfg env fs q ucid i fields' =
     (case buildReplayUrls cfg i of (raw', proxied) \<Rightarrow>
        (let row = ucidItem (Some ucid) i fields' proxied None;
             preferLocal = (case q_local q of None \<Rightarrow> USE_LOCAL_DEFAULT cfg | Some l \<Rightarrow> localFlag l)
         in if q_redirect q = Some ''1'' \<or> q_redirect q = Some ''true''
            then ((302, Redirect raw'), fs, [EvAudit row])
            else if preferLocal then
              (case ensureLocalWav cfg env fs i of
                 (Returns wavPath, fs1, tr1) \<Rightarrow>
                   (case fs1 wavPath of
                      Some total' \<Rightarrow>
                        (let sr = streamFile total' (q_range q) ''audio/wav'' in
                         if body sr = RangeError then
                           (case replayHandler env q (Some i) of (resp, tr2) \<Rightarrow>
                              (resp, fs1, EvAudit row # tr1 @ tr2))
                         else ((status sr, Streamed sr), fs1, EvAudit row # tr1))
                    | None \<Rightarrow>
                        (case replayHandler env q (Some i) of (resp, tr2) \<Rightarrow>
                           (resp, fs1, EvAudit row # tr1 @ tr2)))
               | (Throws msg, fs1, tr1) \<Rightarrow>
                   (case replayHandler env q (Some i) of (resp, tr2) \<Rightarrow>
                      (resp, fs1, EvAudit row # tr1 @ tr2)))
            else
              (case replayHandler env q (Some i) of (resp, tr2) \<Rightarrow>
                 (resp, fs, EvAudit row # tr2))))"

text \<open>\<open>GET /api/acr/replayByUcid\<close>\<close>

definition replayByUcidHandler ::
  "acr_config \<Rightarrow> acr_env \<Rightarrow> files \<Rightarrow> acr_query \<Rightarrow> acr_response \<times> files \<times> acr_event list" where
  "replayByUcidHandler cfg env fs q =
     (let ucid = trim (strOrEmpty (q_ucid q));
          startdate = trim (strOrEmpty (q_startdate q));
          missing = missingParams [(''ucid'', ucid), (''startdate'', startdate)]
      in if missing \<noteq> []
         then ((400, Text (''Missing required parameters: '' @ concat (map (\<lambda>m. m @ '', '') (butlast missing))
                           @ last missing)), fs, [])
         else
           (case computeRangeFromQuery (q\<lparr>q_startdate := Some startdate\<rparr>) of
              Inl msg \<Rightarrow> (onTextError msg, fs, [])
            | Inr w \<Rightarrow>
                (case searchOutcome env of
                   Throws msg \<Rightarrow> (onTextError msg, fs, [EvSearch (ucidSearchParams w ucid)])
                 | Returns results \<Rightarrow>
                     (case results of
                        [] \<Rightarrow> ((404, Text ''No recording found for that UCID/date''), fs,
                                [EvSearch (ucidSearchParams w ucid)])
                      | r # rest \<Rightarrow>
                          (case mapResultFields r of (inum, fields', switchcallid) \<Rightarrow>
                             (case inum of
                                None \<Rightarrow> ((502, Text ''ACR returned no INUM''), fs,
                                          [EvSearch (ucidSearchParams w ucid)])
                              | Some i \<Rightarrow>
                                  (case replayFound cfg env fs q ucid i fields' of (resp, fs1, tr) \<Rightarrow>
                                     (resp, fs1, EvSearch (ucidSearchParams w ucid) # tr))))))))"

text \<open>
  \<open>GET /api/acr/searchByNumber\<close>: the limit. \<open>parseInt(req.query.limit || '0', 10)\<close>,
  and 0 in place of \<open>NaN\<close>, an infinite or a negative number.
\<close>

definition parseLimit :: "string option \<Rightarrow> int" where
  "parseLimit v =
     (case parseInt10 (if truthy v then strOrEmpty v else ''0'') of
        None \<Rightarrow> 0
      | Some l \<Rightarrow> if \<not> isFiniteNumber l \<or> l < 0 then 0 else l)"

definition numberSearchParams :: "window \<Rightarrow> string \<Rightarrow> string \<Rightarrow> string \<Rightarrow> (string \<times> string) list" where
  "numberSearchParams w p2 p4 number =
     [(''command'', ''search''), (''layout'', ''AvayaSegment''), (''operator_startedat'', ''9''),
      (''param1_startedat'', w_p1 w), (''param2_startedat'', p2),
      (''param3_startedat'', w_p3 w), (''param4_startedat'', p4),
      (''operator_otherparties'', ''8''), (''param1_otherparties'', number)]"

text \<open>
  What follows a non-empty parsed result list: map, drop the results without
  identifier, sort, then one record or up to \<open>limit\<close> records, each with its audit row.
  With no record left and no limit, \<open>first\<close> is \<open>undefined\<close>: the audit insert called
  with it rejects before it reaches the database, and reading \<open>first.inum\<close> throws a
  \<open>TypeError\<close>, which the handler's \<open>catch\<close> turns into a 502.
\<close>

definition numberResults ::
  "acr_config \<Rightarrow> acr_env \<Rightarrow> acr_query \<Rightarrow> string \<Rightarrow> resp_window \<Rightarrow> int \<Rightarrow>
     (string \<times> string) list \<Rightarrow> acr_result list \<Rightarrow> acr_response \<times> acr_event list" where
  "numberResults cfg env q number rw limit params results =
     (let items = sortItems (compareItems (parseDate env)) (numberItems cfg number results);
          total' = length items
      in if limit = 0 \<or> limit \<le> 0 then
           (case items of
              [] \<Rightarrow> (onJsonError q ''Cannot read properties of undefined (reading 'inum')'',
                      [EvSearch params])
            | first # others \<Rightarrow>
                ((200, FoundItem total' first rw), [EvSearch params, EvAudit first]))
         else
           (let limited = take (nat limit) items in
            ((200, FoundItems total' limited rw limit), EvSearch params # map EvAudit limited)))"

text \<open>\<open>GET /api/acr/searchByNumber\<close>\<close>

definition searchByNumberHandler ::
  "acr_config \<Rightarrow> acr_env \<Rightarrow> acr_query \<Rightarrow> acr_response \<times> acr_event list" where
  "searchByNumberHandler cfg env q =
     (let number = trim (strOrEmpty (q_number q));
          startdate = trim (strOrEmpty (q_startdate q));
          missing = missingParams [(''number'', number), (''startdate'', startdate)]
      in if missing \<noteq> [] then ((400, Missing missing), [])
         else
           (case computeRangeFromQuery (q\<lparr>q_startdate := Some startdate\<rparr>) of
              Inl msg \<Rightarrow> (onJsonError q msg, [])
            | Inr w \<Rightarrow>
                (let p2 = trim (if truthy (q_starttime q) then strOrEmpty (q_starttime q) else ''00:00:00'');
                     p4 = trim (if truthy (q_endtime q) then strOrEmpty (q_endtime q) else ''23:59:59'');
                     limit = parseLimit (q_limit q);
                     params = numberSearchParams w p2 p4 number;
                     rw = \<lparr> rw_start = w_start w, rw_end = w_end w, rw_p2 = Some p2, rw_p4 = Some p4 \<rparr>
                 in case searchOutcome env of
                      Throws msg \<Rightarrow> (onJsonError q msg, [EvSearch params])
                    | Returns results \<Rightarrow>
                        if results = [] then ((200, Found0 (Some rw)), [EvSearch params])
                        else numberResults cfg env q number rw limit params results)))"

subsection \<open>Notions used to state the properties of the archive handlers\<close>

text \<open>
  A query whose date window is to be rejected: the start date, white space trimmed, is
  not a real calendar date; a non-empty end date is not; or, with no end date,
  \<open>windowDays\<close> is given and is not positive as \<open>parseInt\<close> reads it, that is, \<open>parseInt\<close>
  finds no number in it or finds one that is zero or negative. (A \<open>windowDays\<close> such as
  \<open>7days\<close> or \<open>1.9\<close> is read as 7 and as 1 and is not of this kind.)
\<close>

definition rejectedWindow :: "acr_query \<Rightarrow> bool" where
  "rejectedWindow q =
     (\<not> realCalendarDate (trim (strOrEmpty (q_startdate q)))
      \<or> (truthy (q_enddate q) \<and> \<not> realCalendarDate (trim (strOrEmpty (q_enddate q))))
      \<or> (\<not> truthy (q_enddate q) \<and>
           (case q_windowDays q of None \<Rightarrow> False
            | Some w \<Rightarrow> (case parseInt10 w of None \<Rightarrow> True | Some n \<Rightarrow> n \<le> 0))))"

text \<open>The records a response carries, and the audit rows among the events.\<close>

definition responseItems :: "acr_body \<Rightarrow> item list" where
  "responseItems b = (case b of FoundItem n x w \<Rightarrow> [x] | FoundItems n xs w l \<Rightarrow> xs | _ \<Rightarrow> [])"

definition auditRows :: "acr_event list \<Rightarrow> item list" where
  "auditRows tr = concat (map (\<lambda>e. case e of EvAudit x \<Rightarrow> [x] | _ \<Rightarrow> []) tr)"

definition hasInum :: "acr_result \<Rightarrow> bool" where
  "hasInum r = truthy (res_inum r)"

text \<open>The start time of a record in milliseconds, once it is known to be a valid date.\<close>

definition msOf :: "(string \<Rightarrow> int option) \<Rightarrow> item \<Rightarrow> int" where
  "msOf pd x = (case startedMs pd x of Some t \<Rightarrow> t | None \<Rightarrow> 0)"

text \<open>A configuration, an environment and queries for concrete runs.\<close>

definition demoConfig :: acr_config where
  "demoConfig =
     \<lparr> ACR_SCHEME = ''http'', ACR_HOST = ''acr.local'', ACR_PORT = ''8080'',
       ACR_PATH = ''/searchapi'', ACR_USER = ''u'', ACR_PASS = ''p'',
       MEDIA_ROOT = ''C:/media'', USE_LOCAL_DEFAULT = True \<rparr>"

definition demoParseDate :: "string \<Rightarrow> int option" where
  "demoParseDate =
     map_of [(''2024-03-01T10:00:00Z'', 1709287200000),
             (''2024-03-02T10:00:00Z'', 1709373600000),
             (''2024-03-03T10:00:00Z'', 1709460000000)]"

definition demoEnv :: "acr_result list \<Rightarrow> acr_env" where
  "demoEnv results =
     \<lparr> searchOutcome = Returns results, parseDate = demoParseDate,
       download = DlResponse 200 (Inr 4000), transcode = TcExit 0 (Some 8044),
       metaWritten = Some 80, rawUnlinked = True, proxyStatus = Returns 200 \<rparr>"

definition emptyQuery :: acr_query where
  "emptyQuery =
     \<lparr> q_ucid = None, q_number = None, q_startdate = None, q_enddate = None,
       q_windowDays = None, q_starttime = None, q_endtime = None, q_limit = None,
       q_redirect = None, q_local = None, q_range = None \<rparr>"

definition demoResult :: "string option \<Rightarrow> string \<Rightarrow> acr_result" where
  "demoResult inum startedat =
     \<lparr> res_inum = inum, res_field = [(Some ''StartedAt'', Some startedat)] \<rparr>"

text \<open>A non-empty cached file at a path: \<open>fs.existsSync(p) && fs.statSync(p).size > 0\<close>.\<close>

definition cached :: "files \<Rightarrow> path \<Rightarrow> bool" where
  "cached fs p = (case fs p of None \<Rightarrow> False | Some n \<Rightarrow> n > 0)"

section \<open>Call orchestrator (api/onex.js)\<close>

subsection \<open>Dial prefix\<close>

text \<open>
  \<open>withPrefix(phone)\<close>, with the module constant \<open>CALL_PREFIX\<close>
  (\<open>process.env.CALL_PREFIX || ''\<close>) as first argument.
\<close>

definition withPrefix :: "string \<Rightarrow> string option \<Rightarrow> string" where
  "withPrefix CALL_PREFIX phone =
     (let p = strOrEmpty phone in
      if CALL_PREFIX = [] then p
      else if startsWith p CALL_PREFIX then p else CALL_PREFIX @ p)"


subsection \<open>Configuration, environment and events of the orchestrator\<close>

text \<open>
  The module constants read from the process environment; \<open>parseInt\<close> of a variable
  that is unset or not a number is \<open>NaN\<close>, here \<open>None\<close>.
\<close>

record onex_config =
  UCID_POLL_INTERVAL_MS :: "int option"
  UCID_POLL_MAX_ATTEMPTS :: "int option"
  ONEX_SCHEME :: string
  ONEX_PORT :: string
  ONEX_API_PATH :: string
  CALL_PREFIX :: string
  JAVA_UCID_BASEURL :: "string option"

text \<open>
  One answer of \<open>/nextnotification\<close>: the request or the XML parser throws, the answer
  has no \<open>VoiceInteractionCreated\<close> attributes, or it has them, with \<open>ObjectId\<close> and
  \<open>UCID\<close> each present or not.
\<close>

datatype poll_outcome =
    PollThrows string
  | PollNoVoice
  | PollVoice "string option" "string option"

text \<open>The monitor's answer: the request throws, or a body with \<open>ok\<close> and \<open>ucid\<close>.\<close>

datatype java_outcome =
    JavaThrows string
  | JavaData bool "string option"

text \<open>
  What the remote parties do during one request: \<open>urlOf\<close> is the URL branch of
  \<open>buildBaseUrl\<close> (\<open>new URL\<close> and the path it is given), \<open>stationRow\<close> the device map's
  answer, \<open>registerAttrs\<close> the attributes \<open>ClientId\<close> and \<open>clientId\<close> of the registration
  answer, \<open>pollAnswer n\<close> the answer to the n-th poll, \<open>dbInsert\<close> the outcome of an audit
  insert.
\<close>

record onex_env =
  urlOf :: "string \<Rightarrow> string outcome"
  stationRow :: "string option outcome"
  registerAttrs :: "(string option \<times> string option) outcome"
  makecallAnswer :: "unit outcome"
  pollAnswer :: "nat \<Rightarrow> poll_outcome"
  javaAnswer :: java_outcome
  unregisterAnswer :: "unit outcome"
  dbInsert :: "unit outcome"
  nowMs :: string

record call_row =
  cr_ucid :: "string option"
  cr_ticket_number :: string
  cr_client_phone :: string
  cr_device_ip :: string
  cr_client_id :: string
  cr_interaction_id :: string
  cr_agent_user :: "string option"

text \<open>The remote calls, delays and audit inserts of a request, in the order issued.\<close>

datatype onex_event =
    EvStationLookup string
  | EvRegister string
  | EvJavaMonitor string
  | EvMakeCall string string string
  | EvPoll string
  | EvSleep int
  | EvInsertCallLog call_row
  | EvUnregister string

record startcall_query =
  ticketNumber :: "string option"
  clientPhone :: "string option"
  deviceIp :: "string option"
  agentUser :: "string option"
  clientid :: "string option"

record call_outcome =
  o_success :: bool
  o_ucid :: "string option"
  o_interactionId :: "string option"
  o_clientId :: string
  o_dialed :: "string option"
  o_station :: "string option"

datatype onex_body =
    MissingParameters "string list"
  | ErrorMessage string
  | CallOutcome call_outcome

type_synonym onex_response = "nat \<times> onex_body"

subsection \<open>Base URL, session and monitor\<close>

text \<open>The character class \<open>[a-zA-Z0-9.\-:]\<close>.\<close>

definition hostChar :: "char \<Rightarrow> bool" where
  "hostChar c =
     (c \<in> set ''abcdefghijklmnopqrstuvwxyzABCDEFGHIJKLMNOPQRSTUVWXYZ0123456789.-:'')"

text \<open>\<open>buildBaseUrl(deviceIp)\<close>; \<open>/^https?:\/\//i\<close> selects the URL branch.\<close>

definition buildBaseUrl :: "onex_config \<Rightarrow> onex_env \<Rightarrow> string option \<Rightarrow> string outcome" where
  "buildBaseUrl cfg env dev =
     (if startsWith (toLowerCase (strOrEmpty dev)) ''http://''
         \<or> startsWith (toLowerCase (strOrEmpty dev)) ''https://''
      then urlOf env (strOrEmpty dev)
      else
        (let host = trim (strOrEmpty dev) in
         if host = [] then Throws ''Missing required deviceIp''
         else if \<not> list_all hostChar host then Throws ''Invalid device IP/host''
         else Returns (ONEX_SCHEME cfg @ ''://'' @ host
                        @ (if CHR '':'' \<notin> set host then '':'' @ ONEX_PORT cfg else [])
                        @ ONEX_API_PATH cfg)))"

text \<open>\<open>getStationByIp(deviceIp)\<close>: the station of the first row; any error gives null.\<close>

definition getStationByIp :: "onex_env \<Rightarrow> string option" where
  "getStationByIp env = (case stationRow env of Throws msg \<Rightarrow> None | Returns s \<Rightarrow> orNull s)"

text \<open>
  \<open>ensureClient(baseUrl, preferredName, providedClientId, ctx)\<close>: the session id and
  whether it was created here, with the registration request if one was made.
\<close>

definition ensureClient ::
  "onex_env \<Rightarrow> string \<Rightarrow> string option \<Rightarrow> (string \<times> bool) outcome \<times> onex_event list" where
  "ensureClient env preferredName providedClientId =
     (if truthy providedClientId then (Returns (strOrEmpty providedClientId, False), [])
      else
        (case registerAttrs env of
           Throws msg \<Rightarrow> (Throws msg, [EvRegister preferredName])
         | Returns (upper, lower) \<Rightarrow>
             (let clientId = orElse upper lower in
              if \<not> truthy clientId
              then (Throws ''Failed to register One-X client'', [EvRegister preferredName])
              else (Returns (strOrEmpty clientId, True), [EvRegister preferredName]))))"

text \<open>\<open>unregisterClient(clientid, baseUrl, ctx)\<close>: the request; an error is only logged.\<close>

definition unregisterClient :: "onex_env \<Rightarrow> string \<Rightarrow> onex_event list" where
  "unregisterClient env cid = [EvUnregister cid]"

text \<open>
  \<open>getUcidFromJava(station, timeoutMs, ctx)\<close>: no request without a configured monitor;
  otherwise the \<open>ucid\<close> of an answer that is \<open>ok\<close> and has one, else null.
\<close>

definition getUcidFromJava ::
  "onex_config \<Rightarrow> onex_env \<Rightarrow> string \<Rightarrow> string option \<times> onex_event list" where
  "getUcidFromJava cfg env st =
     (if \<not> truthy (JAVA_UCID_BASEURL cfg) then (None, [])
      else
        (case javaAnswer env of
           JavaThrows msg \<Rightarrow> (None, [EvJavaMonitor st])
         | JavaData ok u \<Rightarrow> (if ok \<and> truthy u then u else None, [EvJavaMonitor st])))"

subsection \<open>Audit of call attempts\<close>

text \<open>
  \<open>insertOnexCallLog({ucid, ticketNumber, clientPhone, deviceIp, clientId, interactionId,
  agentUser})\<close>: skipped without interaction id or client id; otherwise the insert is
  issued, and its failure is caught and logged. The function never throws.
\<close>

definition insertOnexCallLog ::
  "onex_env \<Rightarrow> string option \<Rightarrow> string option \<Rightarrow> string option \<Rightarrow> string option \<Rightarrow>
     string option \<Rightarrow> string option \<Rightarrow> string option \<Rightarrow> onex_event list" where
  "insertOnexCallLog env ucid' ticket phone dev clientId interactionId' agent =
     (if \<not> truthy interactionId' \<or> \<not> truthy clientId then []
      else [EvInsertCallLog
              \<lparr> cr_ucid = ucid', cr_ticket_number = strOrEmpty (orNull ticket),
                cr_client_phone = strOrEmpty (orNull phone),
                cr_device_ip = strOrEmpty (orNull dev),
                cr_client_id = strOrEmpty clientId,
                cr_interaction_id = strOrEmpty interactionId',
                cr_agent_user = orNull agent \<rparr>])"

subsection \<open>Polling for the notification\<close>

text \<open>
  The loop of \<open>/startcall\<close>: while attempts remain and an id is still missing, count the
  attempt and poll; a \<open>VoiceInteractionCreated\<close> sets the ids it carries and leaves the
  loop at once; any other answer, and a poll that throws, is followed by the delay. The
  result is the interaction id, the correlation id and the polls and delays issued.
\<close>

function pollLoop ::
  "int \<Rightarrow> int \<Rightarrow> onex_env \<Rightarrow> string \<Rightarrow> nat \<Rightarrow> string option \<Rightarrow> string option \<Rightarrow>
     string option \<times> string option \<times> onex_event list" where
  "pollLoop maxAttempts interval env cid attempts interactionId' ucidFromOnex =
     (if int attempts < maxAttempts \<and> (\<not> truthy interactionId' \<or> \<not> truthy ucidFromOnex) then
        (case pollAnswer env (Suc attempts) of
           PollVoice objectId ucid' \<Rightarrow>
             (orElse objectId interactionId', orElse ucid' ucidFromOnex, [EvPoll cid])
         | PollNoVoice \<Rightarrow>
             (case pollLoop maxAttempts interval env cid (Suc attempts) interactionId' ucidFromOnex of
                (i, u, tr) \<Rightarrow> (i, u, EvPoll cid # EvSleep interval # tr))
         | PollThrows msg \<Rightarrow>
             (case pollLoop maxAttempts interval env cid (Suc attempts) interactionId' ucidFromOnex of
                (i, u, tr) \<Rightarrow> (i, u, EvPoll cid # EvSleep interval # tr)))
      else (interactionId', ucidFromOnex, []))"
  by pat_completeness auto
termination
  by (relation "measure (\<lambda>(m, i, e, c, a, x, u). nat (m - int a))") auto

declare pollLoop.simps [simp del]

definition polls :: "onex_event list \<Rightarrow> nat" where
  "polls tr = length (filter (\<lambda>e. case e of EvPoll c \<Rightarrow> True | _ \<Rightarrow> False) tr)"

definition unregisters :: "onex_event list \<Rightarrow> nat" where
  "unregisters tr = length (filter (\<lambda>e. case e of EvUnregister c \<Rightarrow> True | _ \<Rightarrow> False) tr)"

definition registers :: "onex_event list \<Rightarrow> nat" where
  "registers tr = length (filter (\<lambda>e. case e of EvRegister c \<Rightarrow> True | _ \<Rightarrow> False) tr)"

subsection \<open>The origination request\<close>

text \<open>
  The \<open>try\<close> block of \<open>/startcall\<close> once the session is there: monitor request (only with
  a station), call placement, polling, choice of the correlation id, audit row, outcome.
  A throwing call placement gives the 500 of the \<open>catch\<close> block.
\<close>

definition placeAndPoll ::
  "onex_config \<Rightarrow> onex_env \<Rightarrow> startcall_query \<Rightarrow> string option \<Rightarrow> string \<Rightarrow> int \<Rightarrow> int \<Rightarrow>
     onex_response \<times> onex_event list" where
  "placeAndPoll cfg env q st cid maxAttempts interval =
     (let dialNumber = withPrefix (CALL_PREFIX cfg) (clientPhone q);
          java = (if truthy st then getUcidFromJava cfg env (strOrEmpty st) else (None, []));
          call = EvMakeCall cid dialNumber (strOrEmpty (deviceIp q))
      in case makecallAnswer env of
           Throws msg \<Rightarrow>
             ((500, ErrorMessage (if msg = [] then ''internal error'' else msg)), snd java @ [call])
         | Returns u \<Rightarrow>
             (case pollLoop maxAttempts interval env cid 0 None None of
                (interactionId', ucidFromOnex, tr) \<Rightarrow>
                  (let ucidFromJava = fst java;
                       ucid' = orNull (orElse ucidFromJava ucidFromOnex)
                   in ((200, CallOutcome
                          \<lparr> o_success = truthy interactionId', o_ucid = ucid',
                            o_interactionId = orNull interactionId', o_clientId = cid,
                            o_dialed = clientPhone q, o_station = orNull st \<rparr>),
                       snd java @ [call] @ tr
                         @ insertOnexCallLog env ucid' (ticketNumber q) (clientPhone q) (deviceIp q)
                             (Some cid) interactionId' (orNull (agentUser q))))))"

text \<open>
  \<open>GET /api/onex/startcall\<close>: parameter and configuration checks, base URL, station,
  then \<open>try\<close> (session, \<open>placeAndPoll\<close>), \<open>catch\<close> (500) and \<open>finally\<close>: the session is
  unregistered exactly when \<open>ensureClient\<close> reported it as created.
\<close>

definition startcall ::
  "onex_config \<Rightarrow> onex_env \<Rightarrow> startcall_query \<Rightarrow> onex_response \<times> onex_event list" where
  "startcall cfg env q =
     (let missing = (if truthy (ticketNumber q) then [] else [''ticketNumber''])
                    @ (if truthy (clientPhone q) then [] else [''clientPhone''])
                    @ (if truthy (deviceIp q) then [] else [''deviceIp''])
      in if missing \<noteq> [] then ((400, MissingParameters missing), [])
         else
           (case (UCID_POLL_INTERVAL_MS cfg, UCID_POLL_MAX_ATTEMPTS cfg) of
              (Some interval, Some maxAttempts) \<Rightarrow>
                (case buildBaseUrl cfg env (deviceIp q) of
                   Throws msg \<Rightarrow> ((400, ErrorMessage msg), [])
                 | Returns baseUrl \<Rightarrow>
                     (let st = getStationByIp env;
                          lookup = EvStationLookup (strOrEmpty (deviceIp q));
                          clientName = ''CRM_'' @ (if truthy (agentUser q) then strOrEmpty (agentUser q) else ''anon'')
                                        @ ''_'' @ strOrEmpty (ticketNumber q) @ ''_'' @ nowMs env
                      in case ensureClient env clientName (clientid q) of
                           (Throws msg, tr0) \<Rightarrow>
                             ((500, ErrorMessage (if msg = [] then ''internal error'' else msg)),
                              lookup # tr0)
                         | (Returns (cid, createdTemp), tr0) \<Rightarrow>
                             (case placeAndPoll cfg env q st cid maxAttempts interval of
                                (resp, tr1) \<Rightarrow>
                                  (resp, lookup # tr0 @ tr1
                                           @ (if createdTemp then unregisterClient env cid else [])))))
            | _ \<Rightarrow>
                ((500, ErrorMessage ''Polling variables not configured (UCID_POLL_INTERVAL_MS / UCID_POLL_MAX)''),
                 [])))"

text \<open>
  A session was created by the orchestrator: a registration request was issued and its
  answer carried a client id.
\<close>

definition registeredId :: "onex_env \<Rightarrow> string option" where
  "registeredId env =
     (case registerAttrs env of
        Throws msg \<Rightarrow> None
      | Returns (upper, lower) \<Rightarrow> orNull (orElse upper lower))"

definition sessionCreated :: "onex_env \<Rightarrow> onex_event list \<Rightarrow> bool" where
  "sessionCreated env tr = (registers tr > 0 \<and> registeredId env \<noteq> None)"

text \<open>The name \<open>/startcall\<close> registers a session under.\<close>

definition clientNameOf :: "onex_env \<Rightarrow> startcall_query \<Rightarrow> string" where
  "clientNameOf env q =
     ''CRM_'' @ (if truthy (agentUser q) then strOrEmpty (agentUser q) else ''anon'')
       @ ''_'' @ strOrEmpty (ticketNumber q) @ ''_'' @ nowMs env"

text \<open>
  The two channels of the correlation id as the outcome sees them: the monitor's value,
  asked for only when a station was resolved, and the notification's.
\<close>

definition sideChannel :: "onex_config \<Rightarrow> onex_env \<Rightarrow> string option" where
  "sideChannel cfg env =
     (if truthy (getStationByIp env)
      then fst (getUcidFromJava cfg env (strOrEmpty (getStationByIp env))) else None)"

text \<open>Configuration, environment and query for concrete runs of the orchestrator.\<close>

definition demoOnexConfig :: onex_config where
  "demoOnexConfig =
     \<lparr> UCID_POLL_INTERVAL_MS = Some 500, UCID_POLL_MAX_ATTEMPTS = Some 3,
       ONEX_SCHEME = ''http'', ONEX_PORT = ''60000'', ONEX_API_PATH = ''/onexagent/api'',
       CALL_PREFIX = ''9'', JAVA_UCID_BASEURL = Some ''http://localhost:8081'' \<rparr>"

definition demoOnexEnv :: "(nat \<Rightarrow> poll_outcome) \<Rightarrow> java_outcome \<Rightarrow> unit outcome \<Rightarrow> onex_env" where
  "demoOnexEnv answers java call =
     \<lparr> urlOf = (\<lambda>u. Returns u), stationRow = Returns (Some ''4001''),
       registerAttrs = Returns (Some ''c1'', None), makecallAnswer = call,
       pollAnswer = answers, javaAnswer = java, unregisterAnswer = Returns (),
       dbInsert = Returns (), nowMs = ''1700000000000'' \<rparr>"

definition demoCall :: "string option \<Rightarrow> startcall_query" where
  "demoCall cid =
     \<lparr> ticketNumber = Some ''T1'', clientPhone = Some ''0791234567'',
       deviceIp = Some ''10.0.0.5'', agentUser = Some ''amal'', clientid = cid \<rparr>"

definition isVoice :: "poll_outcome \<Rightarrow> bool" where
  "isVoice p = (case p of PollVoice objectId ucid' \<Rightarrow> True | _ \<Rightarrow> False)"

definition demoAnswers :: "nat \<Rightarrow> poll_outcome" where
  "demoAnswers n = (if n = 2 then PollVoice (Some ''VI1'') (Some ''000123'') else PollThrows ''timeout'')"

section \<open>Properties\<close>

lemma startsWith_append: "startsWith (pre @ s) pre"
  by (induction pre) auto


text \<open>
  C10. The dial-prefix normalisation is idempotent. With a non-empty \<open>CALL_PREFIX\<close> the
  result always starts with the prefix, and a number that already carries the prefix is
  returned unchanged; with an empty prefix the input is returned unchanged.
\<close>

theorem withPrefix_idempotent_prefixed:
  "withPrefix pfx (Some (withPrefix pfx (Some p))) = withPrefix pfx (Some p)
   \<and> (pfx \<noteq> [] \<longrightarrow> startsWith (withPrefix pfx (Some p)) pfx)
   \<and> (pfx \<noteq> [] \<longrightarrow> startsWith p pfx \<longrightarrow> withPrefix pfx (Some p) = p)
   \<and> withPrefix [] (Some p) = p"
  by (simp add: withPrefix_def strOrEmpty_def Let_def startsWith_append)

theorem withPrefix_idempotent_prefixed_witness:
  "withPrefix ''9'' (Some (withPrefix ''9'' (Some ''0791234567''))) = ''90791234567''
   \<and> ''9'' \<noteq> [] \<and> startsWith (withPrefix ''9'' (Some ''0791234567'')) ''9''
   \<and> startsWith ''962790000000'' ''9'' \<and> withPrefix ''9'' (Some ''962790000000'') = ''962790000000''"
  using withPrefix_idempotent_prefixed [of "''9''" "''0791234567''"]
        withPrefix_idempotent_prefixed [of "''9''" "''962790000000''"]
  by (simp add: withPrefix_def strOrEmpty_def)

lemma safeChar_underscore: "safeChar (CHR ''_'')"
  by (simp add: safeChar_def)

lemma safeChar_not_sep: "safeChar c \<Longrightarrow> \<not> isSep c"
  by (auto simp: safeChar_def isSep_def)

lemma safeName_chars: "c \<in> set (safeName s) \<Longrightarrow> safeChar c"
  by (auto simp: safeName_def safeChar_underscore dest!: in_set_takeD split: if_splits)

lemma safeName_length: "length (safeName s) \<le> 128"
  by (simp add: safeName_def)

lemma splitPath_no_sep: "\<forall>c \<in> set s. \<not> isSep c \<Longrightarrow> splitPath cur s = [rev cur @ s]"
  by (induction s arbitrary: cur) auto

lemma normalizeSegs_snoc:
  "g \<noteq> [] \<Longrightarrow> g \<noteq> ''.'' \<Longrightarrow> g \<noteq> ''..'' \<Longrightarrow>
   normalizeSegs st (gs @ [g]) = normalizeSegs st gs @ [g]"
  by (induction st gs rule: normalizeSegs.induct) (auto split: list.splits)

lemma pathJoin_file:
  assumes "\<forall>c \<in> set name. \<not> isSep c" "name \<noteq> []" "name \<noteq> ''.''" "name \<noteq> ''..''"
  shows "pathJoin dir name = normalizeSegs [] (splitPath [] dir) @ [name]"
  using assms by (simp add: pathJoin_def splitPath_no_sep normalizeSegs_snoc)

lemma long_name_not_dots: "4 \<le> length (x::string) \<Longrightarrow> x \<noteq> [] \<and> x \<noteq> ''.'' \<and> x \<noteq> ''..''"
  by auto

lemma cache_file_name:
  assumes "ext \<in> {''.raw.bin'', ''.wav'', ''.json''}"
  shows "(\<forall>c \<in> set (safeName s @ ext). \<not> isSep c) \<and> safeName s @ ext \<noteq> [] 
     \<and> safeName s @ ext \<noteq> ''.'' \<and> safeName s @ ext \<noteq> ''..''"
proof -
  have a: "\<forall>c \<in> set ext. \<not> isSep c" using assms by (auto simp: isSep_def)
  have b: "\<forall>c \<in> set (safeName s). \<not> isSep c" using safeName_chars safeChar_not_sep by blast
  have c: "length ext \<ge> 4" using assms by auto
  have "length (safeName s @ ext) \<ge> 4" using c by simp
  then have d: "safeName s @ ext \<noteq> [] \<and> safeName s @ ext \<noteq> ''.'' \<and> safeName s @ ext \<noteq> ''..''"
    by (rule long_name_not_dots)
  show ?thesis using a b d by auto
qed

lemma pathJoin_empty: "pathJoin dir [] = normalizeSegs [] (splitPath [] dir)"
proof -
  have "normalizeSegs st (gs @ [[]]) = normalizeSegs st gs" for st gs
    by (induction st gs rule: normalizeSegs.induct) (auto split: list.splits)
  then show ?thesis by (simp add: pathJoin_def)
qed

text \<open>
  C9. The sanitised cache base name contains only characters of \<open>[a-zA-Z0-9._-]\<close> and has
  at most 128 of them; each of the three cache paths is the normalised media root followed
  by exactly one segment, the file name, which contains no path separator: whatever the
  identifier, the files lie directly inside the media root.
\<close>

theorem cache_paths_inside_media_root:
  "(\<forall>c \<in> set (safeName s). safeChar c)
   \<and> length (safeName s) \<le> 128
   \<and> raw (localPathsFor root s) = pathJoin root [] @ [safeName s @ ''.raw.bin'']
   \<and> wav (localPathsFor root s) = pathJoin root [] @ [safeName s @ ''.wav'']
   \<and> meta (localPathsFor root s) = pathJoin root [] @ [safeName s @ ''.json'']
   \<and> (\<forall>ext \<in> {''.raw.bin'', ''.wav'', ''.json''}. \<forall>c \<in> set (safeName s @ ext). \<not> isSep c)"
proof -
  have r: "pathJoin root (safeName s @ ext) = pathJoin root [] @ [safeName s @ ext]"
    if "ext \<in> {''.raw.bin'', ''.wav'', ''.json''}" for ext
    unfolding pathJoin_empty
    using cache_file_name [OF that, of s] by (intro pathJoin_file) auto
  have p: "\<forall>ext \<in> {''.raw.bin'', ''.wav'', ''.json''}. \<forall>c \<in> set (safeName s @ ext). \<not> isSep c"
    using cache_file_name by blast
  have q: "\<forall>c \<in> set (safeName s). safeChar c" using safeName_chars by blast
  show ?thesis
    using r p q safeName_length [of s] by (simp add: localPathsFor_def Let_def)
qed

theorem cache_paths_inside_media_root_witness:
  "safeName (Some ''../../etc/passwd'') = ''.._.._etc_passwd''
   \<and> length (safeName (Some ''../../etc/passwd'')) \<le> 128
   \<and> pathJoin ''C:/media/cache'' [] = [''C:'', ''media'', ''cache'']
   \<and> raw (localPathsFor ''C:/media/cache'' (Some ''../../etc/passwd''))
       = [''C:'', ''media'', ''cache'', ''.._.._etc_passwd.raw.bin'']
   \<and> wav (localPathsFor ''C:/media/cache'' (Some ''../../etc/passwd''))
       = [''C:'', ''media'', ''cache'', ''.._.._etc_passwd.wav'']
   \<and> meta (localPathsFor ''C:/media/cache'' (Some ''../../etc/passwd''))
       = [''C:'', ''media'', ''cache'', ''.._.._etc_passwd.json'']"
proof -
  have n: "safeName (Some ''../../etc/passwd'') = ''.._.._etc_passwd''"
    by (simp add: safeName_def strOrEmpty_def safeChar_def)
  have r: "pathJoin ''C:/media/cache'' [] = [''C:'', ''media'', ''cache'']"
    by (simp add: pathJoin_def isSep_def)
  from cache_paths_inside_media_root [of "Some ''../../etc/passwd''" "''C:/media/cache''"]
  show ?thesis unfolding n r by simp
qed










lemma decVal_digits [simp]: "decVal ''10'' = 10" "decVal ''19'' = 19"
  by (simp_all add: decVal_def digitVal_def)










lemma rollDate_valid: "d \<le> daysInMonth y m \<Longrightarrow> rollDate y m d = (y, m, d)"
  by (simp add: rollDate.simps)










lemma numberItem_None_iff: "numberItem cfg number r = None \<longleftrightarrow> \<not> hasInum r"
  by (cases "res_inum r")
     (simp_all add: numberItem_def mapResultFields_def orNull_def hasInum_def truthy_def buildReplayUrls_def)

lemma numberItems_filter: "numberItems cfg number (filter hasInum results) = numberItems cfg number results"
proof (induction results)
  case Nil
  then show ?case by simp
next
  case (Cons r rs)
  show ?case
  proof (cases "hasInum r")
    case True
    with Cons show ?thesis by (simp add: numberItems_def List.map_filter_simps split: option.splits)
  next
    case False
    then have "numberItem cfg number r = None" by (simp add: numberItem_None_iff)
    with False Cons show ?thesis by (simp add: numberItems_def List.map_filter_simps)
  qed
qed



lemma set_insertItem: "set (insertItem cmp x xs) = insert x (set xs)"
  by (induction xs) auto

lemma set_sortItems: "set (sortItems cmp xs) = set xs"
  by (induction xs) (auto simp: set_insertItem)







lemma compareItems_valid:
  "startedMs pd a \<noteq> None \<Longrightarrow> startedMs pd b \<noteq> None \<Longrightarrow>
   compareItems pd a b = Some (msOf pd b - msOf pd a)"
  by (auto simp: compareItems_def msOf_def)

lemma mset_insertItem: "mset (insertItem cmp x xs) = add_mset x (mset xs)"
  by (induction xs) auto

lemma mset_sortItems: "mset (sortItems cmp xs) = mset xs"
  by (induction xs) (auto simp: mset_insertItem)

lemma sorted_insertItem:
  assumes "startedMs pd x \<noteq> None" "\<forall>y \<in> set ys. startedMs pd y \<noteq> None"
    "sorted_wrt (\<lambda>a b. msOf pd b \<le> msOf pd a) ys"
  shows "sorted_wrt (\<lambda>a b. msOf pd b \<le> msOf pd a) (insertItem (compareItems pd) x ys)"
  using assms
proof (induction ys)
  case Nil
  then show ?case by simp
next
  case (Cons y ys)
  have c: "compareItems pd x y = Some (msOf pd y - msOf pd x)"
    using Cons.prems by (simp add: compareItems_valid)
  show ?case
  proof (cases "msOf pd y - msOf pd x > 0")
    case True
    then have "insertItem (compareItems pd) x (y # ys) = y # insertItem (compareItems pd) x ys"
      using c by simp
    moreover have "sorted_wrt (\<lambda>a b. msOf pd b \<le> msOf pd a) (insertItem (compareItems pd) x ys)"
      using Cons by simp
    moreover have "\<forall>z \<in> set (insertItem (compareItems pd) x ys). msOf pd z \<le> msOf pd y"
      using Cons.prems(3) True by (auto simp: set_insertItem)
    ultimately show ?thesis by simp
  next
    case False
    then have "insertItem (compareItems pd) x (y # ys) = x # y # ys" using c by simp
    moreover have "\<forall>z \<in> set (y # ys). msOf pd z \<le> msOf pd x"
      using Cons.prems(3) False by auto
    ultimately show ?thesis using Cons.prems(3) by simp
  qed
qed

lemma sorted_sortItems:
  assumes "\<forall>y \<in> set xs. startedMs pd y \<noteq> None"
  shows "sorted_wrt (\<lambda>a b. msOf pd b \<le> msOf pd a) (sortItems (compareItems pd) xs)"
  using assms
proof (induction xs)
  case Nil
  then show ?case by simp
next
  case (Cons x xs)
  then show ?case by (simp add: sorted_insertItem set_sortItems)
qed

lemma parseLimit_cases:
  "parseLimit None = 0"
  "parseInt10 l = None \<Longrightarrow> parseLimit (Some l) = 0"
  "parseInt10 l = Some n \<Longrightarrow> n \<le> 0 \<Longrightarrow> parseLimit (Some l) = 0"
  "parseInt10 l = Some n \<Longrightarrow> \<not> isFiniteNumber n \<Longrightarrow> parseLimit (Some l) = 0"
  "parseInt10 l = Some n \<Longrightarrow> n > 0 \<Longrightarrow> isFiniteNumber n \<Longrightarrow> parseLimit (Some l) = n"
proof -
  have z: "parseInt10 ''0'' = Some 0"
    by (simp add: parseInt10_def isWs_def isDigit_def decVal_def digitVal_def)
  have e: "parseInt10 [] = None" by (simp add: parseInt10_def)
  show "parseLimit None = 0" by (simp add: parseLimit_def truthy_def z)
  show "parseInt10 l = None \<Longrightarrow> parseLimit (Some l) = 0"
    by (simp add: parseLimit_def truthy_def z strOrEmpty_def)
  show "parseInt10 l = Some n \<Longrightarrow> n \<le> 0 \<Longrightarrow> parseLimit (Some l) = 0"
    using e by (auto simp: parseLimit_def truthy_def z strOrEmpty_def)
  show "parseInt10 l = Some n \<Longrightarrow> \<not> isFiniteNumber n \<Longrightarrow> parseLimit (Some l) = 0"
    using e by (auto simp: parseLimit_def truthy_def z strOrEmpty_def)
  show "parseInt10 l = Some n \<Longrightarrow> n > 0 \<Longrightarrow> isFiniteNumber n \<Longrightarrow> parseLimit (Some l) = n"
    using e by (auto simp: parseLimit_def truthy_def z strOrEmpty_def)
qed

lemma parseLimit_nonneg: "0 \<le> parseLimit v"
  by (simp add: parseLimit_def split: option.splits)

lemma searchByNumber_valid:
  assumes "trim (strOrEmpty (q_number q)) \<noteq> []"
    and "computeRangeFromQuery (q\<lparr>q_startdate := Some (trim (strOrEmpty (q_startdate q)))\<rparr>) = Inr w"
    and "searchOutcome env = Returns results" and "results \<noteq> []"
  shows "\<exists>rw params. searchByNumberHandler cfg env q
           = numberResults cfg env q (trim (strOrEmpty (q_number q))) rw (parseLimit (q_limit q)) params results"
proof -
  have "trim (strOrEmpty (q_startdate q)) \<noteq> []"
  proof
    assume e: "trim (strOrEmpty (q_startdate q)) = []"
    have "parseYMD (Some []) = None" by (simp add: parseYMD_def strOrEmpty_def trim_def ymdShape_def)
    with e assms(2) show False by (simp add: computeRangeFromQuery_def)
  qed
  with assms show ?thesis
    by (simp add: searchByNumberHandler_def Let_def missingParams_def) blast
qed

lemmas js_eval =
  truthy_def strOrEmpty_def orElse_def orNull_def trim_def isWs_def isDigit_def decVal_def
  digitVal_def parseInt10_def showInt_def showNat.simps digitChar_def Let_def isFiniteNumber_def

lemmas acr_eval =
  findHandler_def findResults_def searchByNumberHandler_def numberResults_def
  replayByUcidHandler_def missingParams_def computeRangeFromQuery_def parseYMD_def ymdShape_def
  rollDate.simps daysInMonth_def isLeap_def toDDMMYY_def pad2_def onJsonError_def onTextError_def
  isInputErr_def parseLimit_def numberItems_def numberItem_def mapResultFields_def fieldsObj_def
  toLowerCase_def lowerChar_def buildReplayUrls_def acrBase_def encodeURIComponent_def
  uriUnreserved_def durationSec_def ucidSearchParams_def numberSearchParams_def
  List.map_filter_simps compareItems_def startedMs_def
  demoConfig_def demoEnv_def demoParseDate_def emptyQuery_def demoResult_def
  responseItems_def auditRows_def rejectedWindow_def realCalendarDate_def




lemma numberResults_single:
  assumes "limit = 0" "sortItems (compareItems (parseDate env)) (numberItems cfg number results) = first # others"
  shows "numberResults cfg env q number rw limit params results
         = ((200, FoundItem (Suc (length others)) first rw), [EvSearch params, EvAudit first])"
  using assms by (simp add: numberResults_def Let_def)

lemma numberResults_multi:
  assumes "limit > 0"
  shows "numberResults cfg env q number rw limit params results
         = ((200, FoundItems (length (numberItems cfg number results))
                   (take (nat limit) (sortItems (compareItems (parseDate env)) (numberItems cfg number results)))
                   rw limit),
            EvSearch params # map EvAudit (take (nat limit)
                (sortItems (compareItems (parseDate env)) (numberItems cfg number results))))"
proof -
  have "length (sortItems c xs) = length xs" for c xs
    using mset_sortItems [of c xs] by (metis size_mset)
  with assms show ?thesis by (simp add: numberResults_def Let_def)
qed

lemma sort_three:
  assumes v: "startedMs pd x1 \<noteq> None" "startedMs pd x2 \<noteq> None" "startedMs pd x3 \<noteq> None"
    and lt: "msOf pd x1 < msOf pd x2" "msOf pd x2 < msOf pd x3"
  shows "sortItems (compareItems pd) [x1, x2, x3] = [x3, x2, x1]"
  using lt by (simp add: compareItems_valid v)

lemma numberItems_none:
  assumes "list_all (\<lambda>r. \<not> hasInum r) results"
  shows "numberItems cfg number results = []"
proof -
  from assms have "filter hasInum results = []" by (induction results) auto
  with numberItems_filter [of cfg number results] show ?thesis
    by (simp add: numberItems_def List.map_filter_simps)
qed

text \<open>
  C4. The claim promises the single newest record for every number-based search whose
  result list is not empty and whose limit is absent, zero or negative. When no result of
  a non-empty list carries an identifier, no record survives the filter; the handler then
  reads the identifier of a first record that does not exist, and the answer is 502 with
  no record and no audit row. With a positive limit the same search is answered 200 with
  0 found and an empty list.
\<close>

theorem searchByNumber_no_identifier_fails:
  assumes number: "trim (strOrEmpty (q_number q)) \<noteq> []"
    and window: "computeRangeFromQuery (q\<lparr>q_startdate := Some (trim (strOrEmpty (q_startdate q)))\<rparr>) = Inr w"
    and found: "searchOutcome env = Returns results" "results \<noteq> []"
    and none: "list_all (\<lambda>r. \<not> hasInum r) results"
  shows "\<exists>params.
           numberItems cfg (trim (strOrEmpty (q_number q))) results = []
         \<and> (parseLimit (q_limit q) = 0 \<longrightarrow>
              searchByNumberHandler cfg env q
                = ((502, Failure ''Cannot read properties of undefined (reading 'inum')''),
                   [EvSearch params]))
         \<and> (0 < parseLimit (q_limit q) \<longrightarrow>
              (\<exists>rw l. fst (searchByNumberHandler cfg env q) = (200, FoundItems 0 [] rw l))
              \<and> snd (searchByNumberHandler cfg env q) = [EvSearch params])
         \<and> (q_limit q = None \<longrightarrow> parseLimit (q_limit q) = 0)"
proof -
  let ?number = "trim (strOrEmpty (q_number q))"
  have e: "numberItems cfg ?number results = []" by (rule numberItems_none [OF none])
  from searchByNumber_valid [OF number window found, of cfg]
  obtain rw params where h: "searchByNumberHandler cfg env q
      = numberResults cfg env q ?number rw (parseLimit (q_limit q)) params results"
    by blast
  have m: "\<not> isInputErr ''Cannot read properties of undefined (reading 'inum')''"
    by (simp add: isInputErr_def)
  have one: "parseLimit (q_limit q) = 0 \<longrightarrow>
              searchByNumberHandler cfg env q
                = ((502, Failure ''Cannot read properties of undefined (reading 'inum')''),
                   [EvSearch params])"
    unfolding h using e m by (simp add: numberResults_def onJsonError_def)
  have many: "0 < parseLimit (q_limit q) \<longrightarrow>
              (\<exists>rw l. fst (searchByNumberHandler cfg env q) = (200, FoundItems 0 [] rw l))
              \<and> snd (searchByNumberHandler cfg env q) = [EvSearch params]"
    unfolding h using e by (simp add: numberResults_def)
  have lim: "q_limit q = None \<longrightarrow> parseLimit (q_limit q) = 0"
    using parseLimit_cases(1) by simp
  show ?thesis using e one many lim by (intro exI [of _ params] conjI) assumption+
qed

theorem searchByNumber_no_identifier_fails_witness:
  "trim (strOrEmpty (q_number (emptyQuery\<lparr>q_number := Some ''0791234567'',
        q_startdate := Some ''2024-03-01''\<rparr>))) \<noteq> []
   \<and> computeRangeFromQuery (emptyQuery\<lparr>q_number := Some ''0791234567'',
        q_startdate := Some ''2024-03-01''\<rparr>)
       = Inr \<lparr>w_start = (2024, 3, 1), w_end = (2024, 3, 1), w_p1 = ''01/03/24'', w_p3 = ''01/03/24''\<rparr>
   \<and> searchOutcome (demoEnv [demoResult None ''2024-03-01T10:00:00Z''])
       = Returns [demoResult None ''2024-03-01T10:00:00Z'']
   \<and> [demoResult None ''2024-03-01T10:00:00Z''] \<noteq> []
   \<and> list_all (\<lambda>r. \<not> hasInum r) [demoResult None ''2024-03-01T10:00:00Z'']
   \<and> parseLimit (q_limit (emptyQuery\<lparr>q_number := Some ''0791234567'',
        q_startdate := Some ''2024-03-01''\<rparr>)) = 0
   \<and> fst (searchByNumberHandler demoConfig (demoEnv [demoResult None ''2024-03-01T10:00:00Z''])
        (emptyQuery\<lparr>q_number := Some ''0791234567'', q_startdate := Some ''2024-03-01''\<rparr>))
       = (502, Failure ''Cannot read properties of undefined (reading 'inum')'')
   \<and> auditRows (snd (searchByNumberHandler demoConfig
        (demoEnv [demoResult None ''2024-03-01T10:00:00Z''])
        (emptyQuery\<lparr>q_number := Some ''0791234567'', q_startdate := Some ''2024-03-01''\<rparr>))) = []
   \<and> parseLimit (q_limit (emptyQuery\<lparr>q_number := Some ''0791234567'',
        q_startdate := Some ''2024-03-01'', q_limit := Some ''2''\<rparr>)) = 2
   \<and> fst (fst (searchByNumberHandler demoConfig (demoEnv [demoResult None ''2024-03-01T10:00:00Z''])
        (emptyQuery\<lparr>q_number := Some ''0791234567'', q_startdate := Some ''2024-03-01'',
           q_limit := Some ''2''\<rparr>))) = 200
   \<and> responseItems (snd (fst (searchByNumberHandler demoConfig
        (demoEnv [demoResult None ''2024-03-01T10:00:00Z''])
        (emptyQuery\<lparr>q_number := Some ''0791234567'', q_startdate := Some ''2024-03-01'',
           q_limit := Some ''2''\<rparr>)))) = []"
proof -
  let ?q = "emptyQuery\<lparr>q_number := Some ''0791234567'', q_startdate := Some ''2024-03-01''\<rparr>"
  let ?q2 = "emptyQuery\<lparr>q_number := Some ''0791234567'', q_startdate := Some ''2024-03-01'',
               q_limit := Some ''2''\<rparr>"
  let ?rs = "[demoResult None ''2024-03-01T10:00:00Z'']"
  let ?w = "\<lparr>w_start = (2024, 3, 1), w_end = (2024, 3, 1), w_p1 = ''01/03/24'', w_p3 = ''01/03/24''\<rparr>"
  have n: "trim (strOrEmpty (q_number ?q)) \<noteq> []" by (simp add: js_eval emptyQuery_def)
  have n2: "trim (strOrEmpty (q_number ?q2)) \<noteq> []" by (simp add: js_eval emptyQuery_def)
  have w0: "computeRangeFromQuery ?q = Inr ?w" by (simp add: js_eval acr_eval)
  have w: "computeRangeFromQuery (?q\<lparr>q_startdate := Some (trim (strOrEmpty (q_startdate ?q)))\<rparr>) = Inr ?w"
    by (simp add: js_eval acr_eval)
  have w2: "computeRangeFromQuery (?q2\<lparr>q_startdate := Some (trim (strOrEmpty (q_startdate ?q2)))\<rparr>) = Inr ?w"
    by (simp add: js_eval acr_eval)
  have f: "searchOutcome (demoEnv ?rs) = Returns ?rs" by (simp add: demoEnv_def)
  have ne: "?rs \<noteq> []" by simp
  have no: "list_all (\<lambda>r. \<not> hasInum r) ?rs"
    by (simp add: hasInum_def demoResult_def truthy_def)
  have l: "parseLimit (q_limit ?q) = 0" by (simp add: js_eval parseLimit_def emptyQuery_def)
  have l2: "parseLimit (q_limit ?q2) = 2" by (simp add: js_eval parseLimit_def emptyQuery_def)
  from searchByNumber_no_identifier_fails [OF n w f ne no, of demoConfig] l
  obtain params where "searchByNumberHandler demoConfig (demoEnv ?rs) ?q
      = ((502, Failure ''Cannot read properties of undefined (reading 'inum')''), [EvSearch params])"
    by auto
  then have a: "fst (searchByNumberHandler demoConfig (demoEnv ?rs) ?q)
      = (502, Failure ''Cannot read properties of undefined (reading 'inum')'')"
    and b: "auditRows (snd (searchByNumberHandler demoConfig (demoEnv ?rs) ?q)) = []"
    by (simp_all add: auditRows_def)
  from searchByNumber_no_identifier_fails [OF n2 w2 f ne no, of demoConfig] l2
  obtain rw l' where "fst (searchByNumberHandler demoConfig (demoEnv ?rs) ?q2) = (200, FoundItems 0 [] rw l')"
    by auto
  then have c: "fst (fst (searchByNumberHandler demoConfig (demoEnv ?rs) ?q2)) = 200"
    and d: "responseItems (snd (fst (searchByNumberHandler demoConfig (demoEnv ?rs) ?q2))) = []"
    by (simp_all add: responseItems_def)
  show ?thesis using n w0 f ne no l a b l2 c d by blast
qed

text \<open>
  Whenever a result with an identifier is there, and the surviving records have start
  times that are valid dates (a missing one counts as the epoch), the handler orders and
  cuts the records as described: the surviving records are sorted by start time, newest
  first; with no limit, or one that is not a number, not finite or not positive, exactly
  the newest record is returned; with a limit of n > 0 the first n records of that order
  are returned, never more than n. Three surviving records with start times T1 < T2 < T3
  and a limit of 2 give the records of T3 and T2, in that order.
\<close>

theorem searchByNumber_newest_first:
  assumes number: "trim (strOrEmpty (q_number q)) = number" "number \<noteq> []"
    and window: "computeRangeFromQuery (q\<lparr>q_startdate := Some (trim (strOrEmpty (q_startdate q)))\<rparr>) = Inr w"
    and found: "searchOutcome env = Returns results"
    and survivors: "numberItems cfg number results \<noteq> []"
    and dated: "\<forall>x \<in> set (numberItems cfg number results). startedMs (parseDate env) x \<noteq> None"
  shows "\<exists>first others rw params.
           mset (first # others) = mset (numberItems cfg number results)
         \<and> sorted_wrt (\<lambda>a b. msOf (parseDate env) b \<le> msOf (parseDate env) a) (first # others)
         \<and> (\<forall>x \<in> set (numberItems cfg number results). msOf (parseDate env) x \<le> msOf (parseDate env) first)
         \<and> (parseLimit (q_limit q) = 0 \<longrightarrow>
               searchByNumberHandler cfg env q
                 = ((200, FoundItem (length (first # others)) first rw), [EvSearch params, EvAudit first]))
         \<and> (parseLimit (q_limit q) > 0 \<longrightarrow>
               searchByNumberHandler cfg env q
                 = ((200, FoundItems (length (first # others))
                            (take (nat (parseLimit (q_limit q))) (first # others)) rw (parseLimit (q_limit q))),
                    EvSearch params # map EvAudit (take (nat (parseLimit (q_limit q))) (first # others)))
               \<and> int (length (take (nat (parseLimit (q_limit q))) (first # others))) \<le> parseLimit (q_limit q))
         \<and> (\<forall>x1 x2 x3. numberItems cfg number results = [x1, x2, x3]
               \<and> msOf (parseDate env) x1 < msOf (parseDate env) x2
               \<and> msOf (parseDate env) x2 < msOf (parseDate env) x3 \<and> parseLimit (q_limit q) = 2 \<longrightarrow>
               searchByNumberHandler cfg env q
                 = ((200, FoundItems 3 [x3, x2] rw 2), [EvSearch params, EvAudit x3, EvAudit x2]))
         \<and> (q_limit q = None \<longrightarrow> parseLimit (q_limit q) = 0)
         \<and> (\<forall>l. q_limit q = Some l \<and> parseInt10 l = None \<longrightarrow> parseLimit (q_limit q) = 0)
         \<and> (\<forall>l n. q_limit q = Some l \<and> parseInt10 l = Some n \<longrightarrow>
               parseLimit (q_limit q) = (if n \<le> 0 \<or> \<not> isFiniteNumber n then 0 else n))"
proof -
  let ?pd = "parseDate env"
  let ?orig = "numberItems cfg number results"
  let ?items = "sortItems (compareItems ?pd) ?orig"
  have ms: "mset ?items = mset ?orig" by (rule mset_sortItems)
  have st: "set ?items = set ?orig" by (rule set_sortItems)
  with survivors obtain first others where fo: "?items = first # others"
    by (cases ?items) auto
  have srt: "sorted_wrt (\<lambda>a b. msOf ?pd b \<le> msOf ?pd a) (first # others)"
    using sorted_sortItems [OF dated] unfolding fo .
  have top: "\<forall>x \<in> set ?orig. msOf ?pd x \<le> msOf ?pd first"
    using srt st fo by (metis insert_iff list.simps(15) order_refl sorted_wrt.simps(2))
  from survivors have "results \<noteq> []" by (auto simp: numberItems_def List.map_filter_simps)
  from searchByNumber_valid [OF _ window found this, of cfg] number
  obtain rw params where h: "searchByNumberHandler cfg env q
      = numberResults cfg env q number rw (parseLimit (q_limit q)) params results"
    by auto
  have len: "length ?orig = length (first # others)"
    using ms fo by (metis size_mset)
  have one: "parseLimit (q_limit q) = 0 \<longrightarrow>
               searchByNumberHandler cfg env q
                 = ((200, FoundItem (length (first # others)) first rw), [EvSearch params, EvAudit first])"
    unfolding h using numberResults_single [OF _ fo] by simp
  have many: "parseLimit (q_limit q) > 0 \<longrightarrow>
               searchByNumberHandler cfg env q
                 = ((200, FoundItems (length (first # others))
                            (take (nat (parseLimit (q_limit q))) (first # others)) rw (parseLimit (q_limit q))),
                    EvSearch params # map EvAudit (take (nat (parseLimit (q_limit q))) (first # others)))
               \<and> int (length (take (nat (parseLimit (q_limit q))) (first # others))) \<le> parseLimit (q_limit q)"
    unfolding h using numberResults_multi [of "parseLimit (q_limit q)" cfg env q number rw params results]
    unfolding fo len by auto
  have three: "\<forall>x1 x2 x3. numberItems cfg number results = [x1, x2, x3]
               \<and> msOf ?pd x1 < msOf ?pd x2 \<and> msOf ?pd x2 < msOf ?pd x3 \<and> parseLimit (q_limit q) = 2 \<longrightarrow>
               searchByNumberHandler cfg env q
                 = ((200, FoundItems 3 [x3, x2] rw 2), [EvSearch params, EvAudit x3, EvAudit x2])"
  proof (intro allI impI)
    fix x1 x2 x3
    assume a: "numberItems cfg number results = [x1, x2, x3]
               \<and> msOf ?pd x1 < msOf ?pd x2 \<and> msOf ?pd x2 < msOf ?pd x3 \<and> parseLimit (q_limit q) = 2"
    then have v: "startedMs ?pd x1 \<noteq> None" "startedMs ?pd x2 \<noteq> None" "startedMs ?pd x3 \<noteq> None"
      using dated by auto
    from a have "?items = [x3, x2, x1]" using sort_three [OF v] by simp
    with a show "searchByNumberHandler cfg env q
                 = ((200, FoundItems 3 [x3, x2] rw 2), [EvSearch params, EvAudit x3, EvAudit x2])"
      unfolding h using numberResults_multi [of 2 cfg env q number rw params results] by simp
  qed
  have lim1: "q_limit q = None \<longrightarrow> parseLimit (q_limit q) = 0"
    using parseLimit_cases by auto
  have lim2: "\<forall>l. q_limit q = Some l \<and> parseInt10 l = None \<longrightarrow> parseLimit (q_limit q) = 0"
    using parseLimit_cases(2) by auto
  have lim3: "\<forall>l n. q_limit q = Some l \<and> parseInt10 l = Some n \<longrightarrow>
               parseLimit (q_limit q) = (if n \<le> 0 \<or> \<not> isFiniteNumber n then 0 else n)"
    using parseLimit_cases(3,4,5) by (auto simp: not_le)
  show ?thesis
    using ms [unfolded fo] srt top one many three lim1 lim2 lim3
    by (intro exI [of _ first] exI [of _ others] exI [of _ rw] exI [of _ params] conjI) assumption+
qed


theorem searchByNumber_newest_first_witness:
  "trim (strOrEmpty (q_number (emptyQuery\<lparr>q_number := Some ''0791234567'',
        q_startdate := Some ''2024-03-01'', q_limit := Some ''2''\<rparr>))) = ''0791234567''
   \<and> computeRangeFromQuery (emptyQuery\<lparr>q_number := Some ''0791234567'',
        q_startdate := Some ''2024-03-01'', q_limit := Some ''2''\<rparr>)
       = Inr \<lparr>w_start = (2024, 3, 1), w_end = (2024, 3, 1), w_p1 = ''01/03/24'', w_p3 = ''01/03/24''\<rparr>
   \<and> map it_inum (numberItems demoConfig ''0791234567''
         [demoResult (Some ''a1'') ''2024-03-01T10:00:00Z'', demoResult None ''2024-03-03T10:00:00Z'',
          demoResult (Some ''a2'') ''2024-03-02T10:00:00Z'', demoResult (Some ''a3'') ''2024-03-03T10:00:00Z''])
       = [''a1'', ''a2'', ''a3'']
   \<and> map (startedMs demoParseDate) (numberItems demoConfig ''0791234567''
         [demoResult (Some ''a1'') ''2024-03-01T10:00:00Z'', demoResult None ''2024-03-03T10:00:00Z'',
          demoResult (Some ''a2'') ''2024-03-02T10:00:00Z'', demoResult (Some ''a3'') ''2024-03-03T10:00:00Z''])
       = [Some 1709287200000, Some 1709373600000, Some 1709460000000]
   \<and> map it_inum (responseItems (snd (fst (searchByNumberHandler demoConfig
         (demoEnv [demoResult (Some ''a1'') ''2024-03-01T10:00:00Z'', demoResult None ''2024-03-03T10:00:00Z'',
            demoResult (Some ''a2'') ''2024-03-02T10:00:00Z'', demoResult (Some ''a3'') ''2024-03-03T10:00:00Z''])
         (emptyQuery\<lparr>q_number := Some ''0791234567'', q_startdate := Some ''2024-03-01'',
            q_limit := Some ''2''\<rparr>)))))
       = [''a3'', ''a2'']
   \<and> (\<exists>first others.
         mset (first # others) = mset (numberItems demoConfig ''0791234567''
           [demoResult (Some ''a1'') ''2024-03-01T10:00:00Z'', demoResult None ''2024-03-03T10:00:00Z'',
            demoResult (Some ''a2'') ''2024-03-02T10:00:00Z'', demoResult (Some ''a3'') ''2024-03-03T10:00:00Z''])
         \<and> sorted_wrt (\<lambda>a b. msOf demoParseDate b \<le> msOf demoParseDate a) (first # others))"
proof -
  let ?q = "emptyQuery\<lparr>q_number := Some ''0791234567'', q_startdate := Some ''2024-03-01'',
              q_limit := Some ''2''\<rparr>"
  let ?rs = "[demoResult (Some ''a1'') ''2024-03-01T10:00:00Z'', demoResult None ''2024-03-03T10:00:00Z'',
            demoResult (Some ''a2'') ''2024-03-02T10:00:00Z'', demoResult (Some ''a3'') ''2024-03-03T10:00:00Z'']"
  let ?w = "\<lparr>w_start = (2024, 3, 1), w_end = (2024, 3, 1), w_p1 = ''01/03/24'', w_p3 = ''01/03/24''\<rparr>"
  have n: "trim (strOrEmpty (q_number ?q)) = ''0791234567''" by (simp add: js_eval emptyQuery_def)
  have ne: "''0791234567'' \<noteq> []" by simp
  have w0: "computeRangeFromQuery ?q = Inr ?w" by (simp add: js_eval acr_eval)
  have w: "computeRangeFromQuery (?q\<lparr>q_startdate := Some (trim (strOrEmpty (q_startdate ?q)))\<rparr>) = Inr ?w"
    by (simp add: js_eval acr_eval)
  have f: "searchOutcome (demoEnv ?rs) = Returns ?rs" by (simp add: demoEnv_def)
  have pd: "parseDate (demoEnv ?rs) = demoParseDate" by (simp add: demoEnv_def)
  have its: "map it_inum (numberItems demoConfig ''0791234567'' ?rs) = [''a1'', ''a2'', ''a3'']"
    by (simp add: js_eval acr_eval)
  then have s: "numberItems demoConfig ''0791234567'' ?rs \<noteq> []" by auto
  have dm: "map (startedMs demoParseDate) (numberItems demoConfig ''0791234567'' ?rs)
       = [Some 1709287200000, Some 1709373600000, Some 1709460000000]"
    by (simp add: js_eval acr_eval)
  have d: "\<forall>x \<in> set (numberItems demoConfig ''0791234567'' ?rs). startedMs demoParseDate x \<noteq> None"
  proof
    fix x assume "x \<in> set (numberItems demoConfig ''0791234567'' ?rs)"
    then have "startedMs demoParseDate x \<in> set (map (startedMs demoParseDate)
                 (numberItems demoConfig ''0791234567'' ?rs))" by simp
    then show "startedMs demoParseDate x \<noteq> None" unfolding dm by auto
  qed
  have r: "map it_inum (responseItems (snd (fst (searchByNumberHandler demoConfig (demoEnv ?rs) ?q))))
             = [''a3'', ''a2'']"
    by (simp add: js_eval acr_eval)
  from searchByNumber_newest_first [OF n ne w f s d [folded pd]]
  have "\<exists>first others.
         mset (first # others) = mset (numberItems demoConfig ''0791234567'' ?rs)
         \<and> sorted_wrt (\<lambda>a b. msOf demoParseDate b \<le> msOf demoParseDate a) (first # others)"
    unfolding pd by blast
  with n w0 its dm r show ?thesis by blast
qed

lemma cache_paths_distinct:
  "wav (localPathsFor root s) \<noteq> raw (localPathsFor root s)"
  "wav (localPathsFor root s) \<noteq> meta (localPathsFor root s)"
proof -
  have r: "pathJoin root (safeName s @ ext) = pathJoin root [] @ [safeName s @ ext]"
    if "ext \<in> {''.raw.bin'', ''.wav'', ''.json''}" for ext
    unfolding pathJoin_empty
    using cache_file_name [OF that, of s] by (intro pathJoin_file) auto
  show "wav (localPathsFor root s) \<noteq> raw (localPathsFor root s)"
    by (simp add: localPathsFor_def Let_def r)
  show "wav (localPathsFor root s) \<noteq> meta (localPathsFor root s)"
    by (simp add: localPathsFor_def Let_def r)
qed

lemma ensureLocalWav_hit:
  assumes "cached fs (wav (localPathsFor (MEDIA_ROOT cfg) (Some inum)))"
  shows "ensureLocalWav cfg env fs inum = (Returns (wav (localPathsFor (MEDIA_ROOT cfg) (Some inum))), fs, [])"
  using assms by (simp add: ensureLocalWav_def cached_def Let_def)

lemma ensureLocalWav_miss:
  assumes cold: "\<not> cached fs (wav (localPathsFor (MEDIA_ROOT cfg) (Some inum)))"
    and dl: "download env = DlResponse st (Inr n)" "200 \<le> st" "st < 400"
    and tc: "transcode env = TcExit 0 (Some m)"
  shows "\<exists>fs1. ensureLocalWav cfg env fs inum
           = (Returns (wav (localPathsFor (MEDIA_ROOT cfg) (Some inum))), fs1,
              [EvDownload inum,
               EvTranscode (raw (localPathsFor (MEDIA_ROOT cfg) (Some inum)))
                           (wav (localPathsFor (MEDIA_ROOT cfg) (Some inum)))])
         \<and> fs1 (wav (localPathsFor (MEDIA_ROOT cfg) (Some inum))) = Some m"
  using assms cache_paths_distinct [of "MEDIA_ROOT cfg" "Some inum"]
  by (auto simp: ensureLocalWav_def cached_def Let_def downloadRawFromAcr_def transcodeToWav_def
        split: option.splits)

text \<open>
  C6. Two calls of \<open>ensureLocalWav\<close> in sequence for the same identifier, starting without
  a cached file, with a download that succeeds and a transcoder that exits 0 and leaves a
  non-empty file: the first call downloads once and transcodes once; the second call,
  whatever the archive and the transcoder would then do, finds the non-empty cached file
  and returns at once, with no download and no transcode; both return the same path.
\<close>

theorem ensureLocalWav_second_call_cached:
  assumes cold: "\<not> cached fs (wav (localPathsFor (MEDIA_ROOT cfg) (Some inum)))"
    and dl: "download env = DlResponse st (Inr n)" "200 \<le> st" "st < 400"
    and tc: "transcode env = TcExit 0 (Some m)" "m > 0"
  shows "\<exists>fs1 tr1.
           ensureLocalWav cfg env fs inum
             = (Returns (wav (localPathsFor (MEDIA_ROOT cfg) (Some inum))), fs1, tr1)
         \<and> downloads tr1 = 1 \<and> transcodes tr1 = 1
         \<and> cached fs1 (wav (localPathsFor (MEDIA_ROOT cfg) (Some inum)))
         \<and> (\<forall>env2. ensureLocalWav cfg env2 fs1 inum
                      = (Returns (wav (localPathsFor (MEDIA_ROOT cfg) (Some inum))), fs1, []))
         \<and> (\<forall>env2. downloads (tr1 @ snd (snd (ensureLocalWav cfg env2 fs1 inum))) = 1
                  \<and> transcodes (tr1 @ snd (snd (ensureLocalWav cfg env2 fs1 inum))) = 1)"
proof -
  let ?wav = "wav (localPathsFor (MEDIA_ROOT cfg) (Some inum))"
  let ?raw = "raw (localPathsFor (MEDIA_ROOT cfg) (Some inum))"
  from ensureLocalWav_miss [OF cold dl tc(1)] obtain fs1 where
    e: "ensureLocalWav cfg env fs inum = (Returns ?wav, fs1, [EvDownload inum, EvTranscode ?raw ?wav])"
    and w: "fs1 ?wav = Some m" by blast
  have c: "cached fs1 ?wav" using w tc(2) by (simp add: cached_def)
  have hit: "ensureLocalWav cfg env2 fs1 inum = (Returns ?wav, fs1, [])" for env2
    using c by (rule ensureLocalWav_hit)
  have d: "downloads [EvDownload inum, EvTranscode ?raw ?wav] = 1"
    "transcodes [EvDownload inum, EvTranscode ?raw ?wav] = 1"
    by (simp_all add: downloads_def transcodes_def)
  show ?thesis
    using e d c hit by (intro exI [of _ fs1] exI [of _ "[EvDownload inum, EvTranscode ?raw ?wav]"]) simp
qed

theorem ensureLocalWav_second_call_cached_witness:
  "\<not> cached Map.empty (wav (localPathsFor (MEDIA_ROOT demoConfig) (Some ''a1'')))
   \<and> download (demoEnv []) = DlResponse 200 (Inr 4000)
   \<and> transcode (demoEnv []) = TcExit 0 (Some 8044)
   \<and> (\<exists>fs1 tr1. ensureLocalWav demoConfig (demoEnv []) Map.empty ''a1''
          = (Returns [''C:'', ''media'', ''a1.wav''], fs1, tr1)
        \<and> downloads tr1 = 1 \<and> transcodes tr1 = 1
        \<and> ensureLocalWav demoConfig (demoEnv []) fs1 ''a1''
          = (Returns [''C:'', ''media'', ''a1.wav''], fs1, []))"
proof -
  have p: "wav (localPathsFor (MEDIA_ROOT demoConfig) (Some ''a1'')) = [''C:'', ''media'', ''a1.wav'']"
    by (simp add: localPathsFor_def demoConfig_def safeName_def strOrEmpty_def safeChar_def pathJoin_def isSep_def)
  have c: "\<not> cached Map.empty (wav (localPathsFor (MEDIA_ROOT demoConfig) (Some ''a1'')))"
    by (simp add: cached_def)
  have d: "download (demoEnv []) = DlResponse 200 (Inr 4000)" by (simp add: demoEnv_def)
  have t: "transcode (demoEnv []) = TcExit 0 (Some 8044)" by (simp add: demoEnv_def)
  from ensureLocalWav_second_call_cached [OF c d _ _ t]
  show ?thesis using c d t unfolding p by auto
qed

subsection \<open>Call orchestrator\<close>

lemma polls_append: "polls (a @ b) = polls a + polls b"
  by (simp add: polls_def)

lemma unregisters_append: "unregisters (a @ b) = unregisters a + unregisters b"
  by (simp add: unregisters_def)

lemma registers_append: "registers (a @ b) = registers a + registers b"
  by (simp add: registers_def)

lemma pollLoop_unfold_stop:
  "\<not> (int a < m \<and> (\<not> truthy x \<or> \<not> truthy u)) \<Longrightarrow> pollLoop m iv env cid a x u = (x, u, [])"
  by (subst pollLoop.simps) auto

lemma pollLoop_unfold_step:
  "int a < m \<and> (\<not> truthy x \<or> \<not> truthy u) \<Longrightarrow>
   pollLoop m iv env cid a x u =
     (case pollAnswer env (Suc a) of
        PollVoice objectId ucid' \<Rightarrow> (orElse objectId x, orElse ucid' u, [EvPoll cid])
      | PollNoVoice \<Rightarrow>
          (case pollLoop m iv env cid (Suc a) x u of
             (i, u, tr) \<Rightarrow> (i, u, EvPoll cid # EvSleep iv # tr))
      | PollThrows msg \<Rightarrow>
          (case pollLoop m iv env cid (Suc a) x u of
             (i, u, tr) \<Rightarrow> (i, u, EvPoll cid # EvSleep iv # tr)))"
  by (subst pollLoop.simps) simp

lemma pollLoop_counts:
  "polls (snd (snd (pollLoop m iv env cid a x u))) \<le> nat (m - int a)
   \<and> unregisters (snd (snd (pollLoop m iv env cid a x u))) = 0
   \<and> registers (snd (snd (pollLoop m iv env cid a x u))) = 0"
proof (induction m iv env cid a x u rule: pollLoop.induct)
  case (1 m iv env cid a x u)
  show ?case
  proof (cases "int a < m \<and> (\<not> truthy x \<or> \<not> truthy u)")
    case False
    show ?thesis
      unfolding pollLoop_unfold_stop [OF False]
      by (simp add: polls_def unregisters_def registers_def)
  next
    case True
    then have pos: "Suc 0 \<le> nat (m - int a)" "nat (m - int (Suc a)) < nat (m - int a)" by linarith+
    show ?thesis
    proof (cases "pollAnswer env (Suc a)")
      case (PollVoice o' c')
      with True pos show ?thesis
        unfolding pollLoop_unfold_step [OF True]
        by (simp add: polls_def unregisters_def registers_def; linarith)
    next
      case PollNoVoice
      obtain i' u' tr where r: "pollLoop m iv env cid (Suc a) x u = (i', u', tr)"
        by (cases "pollLoop m iv env cid (Suc a) x u") auto
      with True 1(2) [OF True PollNoVoice] PollNoVoice pos show ?thesis
        unfolding pollLoop_unfold_step [OF True]
        by (simp add: polls_def unregisters_def registers_def; linarith)
    next
      case (PollThrows msg)
      obtain i' u' tr where r: "pollLoop m iv env cid (Suc a) x u = (i', u', tr)"
        by (cases "pollLoop m iv env cid (Suc a) x u") auto
      with True 1(1) [OF True PollThrows] PollThrows pos show ?thesis
        unfolding pollLoop_unfold_step [OF True]
        by (simp add: polls_def unregisters_def registers_def; linarith)
    qed
  qed
qed

lemma pollLoop_miss:
  assumes "\<not> isVoice (pollAnswer env (Suc a))" "int a < m"
  shows "pollLoop m iv env cid a None None
         = (case pollLoop m iv env cid (Suc a) None None of
              (i, u, tr) \<Rightarrow> (i, u, EvPoll cid # EvSleep iv # tr))"
  using assms
  by (subst pollLoop.simps) (auto simp: isVoice_def truthy_def split: poll_outcome.splits)

lemma pollLoop_misses:
  assumes "\<forall>j. a < j \<and> j \<le> a + n \<longrightarrow> \<not> isVoice (pollAnswer env j)" "int (a + n) \<le> m"
  shows "pollLoop m iv env cid a None None
         = (case pollLoop m iv env cid (a + n) None None of
              (i, u, tr) \<Rightarrow> (i, u, concat (replicate n [EvPoll cid, EvSleep iv]) @ tr))"
  using assms
proof (induction n arbitrary: a)
  case 0
  then show ?case by (simp split: prod.splits)
next
  case (Suc n)
  have m1: "\<not> isVoice (pollAnswer env (Suc a))" using Suc.prems(1) by simp
  have lt: "int a < m" using Suc.prems(2) by simp
  have ih: "pollLoop m iv env cid (Suc a) None None
         = (case pollLoop m iv env cid (Suc a + n) None None of
              (i, u, tr) \<Rightarrow> (i, u, concat (replicate n [EvPoll cid, EvSleep iv]) @ tr))"
    using Suc.prems by (intro Suc.IH) auto
  show ?case
    unfolding pollLoop_miss [OF m1 lt] ih by (simp split: prod.splits)
qed

lemma pollLoop_voice:
  assumes "pollAnswer env (Suc a) = PollVoice oid uc" "int a < m"
  shows "pollLoop m iv env cid a None None = (orNull oid, orNull uc, [EvPoll cid])"
  using assms by (subst pollLoop.simps) (simp add: truthy_def orElse_def orNull_def)

lemma pollLoop_exhausted:
  assumes "m \<le> int a"
  shows "pollLoop m iv env cid a x u = (x, u, [])"
  using assms by (subst pollLoop.simps) simp

lemma pollLoop_stops_at_voice:
  assumes "1 \<le> k" "int k \<le> m" "\<forall>j. 1 \<le> j \<and> j < k \<longrightarrow> \<not> isVoice (pollAnswer env j)"
    "pollAnswer env k = PollVoice oid uc"
  shows "pollLoop m iv env cid 0 None None
         = (orNull oid, orNull uc, concat (replicate (k - 1) [EvPoll cid, EvSleep iv]) @ [EvPoll cid])"
proof -
  have a: "pollLoop m iv env cid 0 None None
         = (case pollLoop m iv env cid (0 + (k - 1)) None None of
              (i, u, tr) \<Rightarrow> (i, u, concat (replicate (k - 1) [EvPoll cid, EvSleep iv]) @ tr))"
    using assms by (intro pollLoop_misses) auto
  have b: "pollLoop m iv env cid (k - 1) None None = (orNull oid, orNull uc, [EvPoll cid])"
    using assms by (intro pollLoop_voice) auto
  show ?thesis unfolding a using b by simp
qed

lemma pollLoop_all_miss:
  assumes "\<forall>j. 1 \<le> j \<and> int j \<le> m \<longrightarrow> \<not> isVoice (pollAnswer env j)"
  shows "pollLoop m iv env cid 0 None None
         = (None, None, concat (replicate (nat m) [EvPoll cid, EvSleep iv]))"
proof (cases "0 \<le> m")
  case False
  then show ?thesis by (subst pollLoop.simps) simp
next
  case True
  have a: "pollLoop m iv env cid 0 None None
         = (case pollLoop m iv env cid (0 + nat m) None None of
              (i, u, tr) \<Rightarrow> (i, u, concat (replicate (nat m) [EvPoll cid, EvSleep iv]) @ tr))"
    using assms True by (intro pollLoop_misses) auto
  have b: "pollLoop m iv env cid (nat m) None None = (None, None, [])"
    by (intro pollLoop_exhausted) simp
  show ?thesis unfolding a using b by simp
qed


lemma counts_simps:
  "polls [] = 0" "unregisters [] = 0" "registers [] = 0"
  "polls (e # tr) = (case e of EvPoll c \<Rightarrow> 1 | _ \<Rightarrow> 0) + polls tr"
  "unregisters (e # tr) = (case e of EvUnregister c \<Rightarrow> 1 | _ \<Rightarrow> 0) + unregisters tr"
  "registers (e # tr) = (case e of EvRegister c \<Rightarrow> 1 | _ \<Rightarrow> 0) + registers tr"
  by (auto simp: polls_def unregisters_def registers_def split: onex_event.splits)

lemma getUcidFromJava_counts:
  "polls (snd (getUcidFromJava cfg env st)) = 0 \<and> unregisters (snd (getUcidFromJava cfg env st)) = 0
   \<and> registers (snd (getUcidFromJava cfg env st)) = 0"
  by (auto simp: getUcidFromJava_def counts_simps split: java_outcome.splits)

lemma insertOnexCallLog_counts:
  "polls (insertOnexCallLog env u t p d c i a) = 0 \<and> unregisters (insertOnexCallLog env u t p d c i a) = 0
   \<and> registers (insertOnexCallLog env u t p d c i a) = 0"
  by (simp add: insertOnexCallLog_def counts_simps)

lemma placeAndPoll_counts:
  "polls (snd (placeAndPoll cfg env q st cid m iv)) \<le> nat m
   \<and> unregisters (snd (placeAndPoll cfg env q st cid m iv)) = 0
   \<and> registers (snd (placeAndPoll cfg env q st cid m iv)) = 0"
proof -
  obtain i u tr where r: "pollLoop m iv env cid 0 None None = (i, u, tr)"
    by (cases "pollLoop m iv env cid 0 None None") auto
  from pollLoop_counts [of m iv env cid 0 None None] r
  have c: "polls tr \<le> nat m" "unregisters tr = 0" "registers tr = 0" by simp_all
  show ?thesis
    using c r getUcidFromJava_counts [of cfg env "strOrEmpty st"] insertOnexCallLog_counts
    by (cases "makecallAnswer env")
       (simp_all add: placeAndPoll_def Let_def polls_append unregisters_append registers_append
          counts_simps)
qed

lemma ensureClient_Returns:
  assumes "ensureClient env name p = (Returns (cid, created), tr0)"
  shows "(created \<longleftrightarrow> \<not> truthy p)
         \<and> (created \<longrightarrow> tr0 = [EvRegister name] \<and> registeredId env = Some cid)
         \<and> (\<not> created \<longrightarrow> tr0 = [] \<and> cid = strOrEmpty p)"
  using assms
  by (auto simp: ensureClient_def registeredId_def Let_def orNull_def strOrEmpty_def truthy_def
        split: if_splits outcome.splits prod.splits option.splits)

lemma ensureClient_Throws:
  assumes "ensureClient env name p = (Throws msg, tr0)"
  shows "\<not> truthy p \<and> tr0 = [EvRegister name] \<and> registeredId env = None"
  using assms
  by (auto simp: ensureClient_def registeredId_def Let_def orNull_def
        split: if_splits outcome.splits prod.splits)

lemma startcall_trace:
  "(snd (startcall cfg env q) = [] \<and> fst (fst (startcall cfg env q)) \<in> {400, 500}
      \<and> (\<forall>out. snd (fst (startcall cfg env q)) \<noteq> CallOutcome out))
   \<or> (\<exists>msg tr0. ensureClient env (clientNameOf env q) (clientid q) = (Throws msg, tr0)
        \<and> fst (fst (startcall cfg env q)) = 500
        \<and> (\<forall>out. snd (fst (startcall cfg env q)) \<noteq> CallOutcome out)
        \<and> snd (startcall cfg env q) = EvStationLookup (strOrEmpty (deviceIp q)) # tr0)
   \<or> (\<exists>cid created tr0 m iv.
        UCID_POLL_MAX_ATTEMPTS cfg = Some m \<and> UCID_POLL_INTERVAL_MS cfg = Some iv
        \<and> ensureClient env (clientNameOf env q) (clientid q) = (Returns (cid, created), tr0)
        \<and> fst (startcall cfg env q) = fst (placeAndPoll cfg env q (getStationByIp env) cid m iv)
        \<and> snd (startcall cfg env q)
            = EvStationLookup (strOrEmpty (deviceIp q)) # tr0
                @ snd (placeAndPoll cfg env q (getStationByIp env) cid m iv)
                @ (if created then [EvUnregister cid] else []))"
  (is "?A \<or> ?B \<or> ?C")
proof (cases "truthy (ticketNumber q) \<and> truthy (clientPhone q) \<and> truthy (deviceIp q)")
  case False
  then have ?A by (auto simp: startcall_def Let_def)
  then show ?thesis by blast
next
  case present: True
  show ?thesis
  proof (cases "UCID_POLL_INTERVAL_MS cfg")
    case None
    with present have ?A by (simp add: startcall_def Let_def)
    then show ?thesis by blast
  next
    case iv: (Some iv)
    show ?thesis
    proof (cases "UCID_POLL_MAX_ATTEMPTS cfg")
      case None
      with present iv have ?A by (simp add: startcall_def Let_def)
      then show ?thesis by blast
    next
      case m: (Some m)
      show ?thesis
      proof (cases "buildBaseUrl cfg env (deviceIp q)")
        case (Throws msg)
        with present iv m have ?A by (simp add: startcall_def Let_def)
        then show ?thesis by blast
      next
        case url: (Returns baseUrl)
        obtain r tr0 where e: "ensureClient env (clientNameOf env q) (clientid q) = (r, tr0)"
          by (cases "ensureClient env (clientNameOf env q) (clientid q)") auto
        show ?thesis
        proof (cases r)
          case (Throws msg)
          with present iv m url e have
            "startcall cfg env q = ((500, ErrorMessage (if msg = [] then ''internal error'' else msg)),
                EvStationLookup (strOrEmpty (deviceIp q)) # tr0)"
            by (simp add: startcall_def Let_def clientNameOf_def)
          with e Throws have ?B by simp
          then show ?thesis by blast
        next
          case (Returns cc)
          obtain cid created where cc: "cc = (cid, created)" by (cases cc)
          obtain resp tr1 where pp: "placeAndPoll cfg env q (getStationByIp env) cid m iv = (resp, tr1)"
            by (cases "placeAndPoll cfg env q (getStationByIp env) cid m iv") auto
          from present iv m url e Returns cc pp have
            "startcall cfg env q = (resp, EvStationLookup (strOrEmpty (deviceIp q)) # tr0 @ tr1
                @ (if created then [EvUnregister cid] else []))"
            by (simp add: startcall_def Let_def clientNameOf_def unregisterClient_def)
          with e Returns cc pp m iv have ?C by simp
          then show ?thesis by blast
        qed
      qed
    qed
  qed
qed


text \<open>
  C1. In every run of \<open>/startcall\<close> the number of \<open>unregisterclient\<close> requests is 1 if
  the orchestrator created the session (it issued a registration that returned a client
  id) and 0 otherwise, whatever the remote parties answer and whether the run ends in
  the outcome record or in the 500 of the \<open>catch\<close> block; with a session supplied by the
  caller there is neither registration nor teardown; and the teardown of a created
  session is the last request of the run.
\<close>

theorem startcall_teardown_once:
  "unregisters (snd (startcall cfg env q))
     = (if sessionCreated env (snd (startcall cfg env q)) then 1 else 0)
   \<and> (truthy (clientid q) \<longrightarrow>
        unregisters (snd (startcall cfg env q)) = 0 \<and> registers (snd (startcall cfg env q)) = 0)
   \<and> (sessionCreated env (snd (startcall cfg env q)) \<longrightarrow>
        (\<exists>cid pre. registeredId env = Some cid \<and> snd (startcall cfg env q) = pre @ [EvUnregister cid]))"
  (is "?P (snd (startcall cfg env q))")
proof -
  let ?tr = "snd (startcall cfg env q)"
  let ?lookup = "EvStationLookup (strOrEmpty (deviceIp q))"
  from startcall_trace [of cfg env q] consider
      (early) "?tr = []"
    | (failed) msg tr0 where "ensureClient env (clientNameOf env q) (clientid q) = (Throws msg, tr0)"
        "?tr = ?lookup # tr0"
    | (session) cid created tr0 m iv where
        "ensureClient env (clientNameOf env q) (clientid q) = (Returns (cid, created), tr0)"
        "?tr = ?lookup # tr0 @ snd (placeAndPoll cfg env q (getStationByIp env) cid m iv)
                @ (if created then [EvUnregister cid] else [])"
    by blast
  then show ?thesis
  proof cases
    case early
    then show ?thesis by (simp add: sessionCreated_def counts_simps)
  next
    case failed
    from ensureClient_Throws [OF failed(1)] failed(2) show ?thesis
      by (simp add: sessionCreated_def counts_simps)
  next
    case session
    let ?pp = "snd (placeAndPoll cfg env q (getStationByIp env) cid m iv)"
    note c = placeAndPoll_counts [of cfg env q "getStationByIp env" cid m iv]
    note e = ensureClient_Returns [OF session(1)]
    show ?thesis
    proof (cases created)
      case True
      with e have t: "tr0 = [EvRegister (clientNameOf env q)]" "registeredId env = Some cid"
        "\<not> truthy (clientid q)" by auto
      have tr: "?tr = (?lookup # tr0 @ ?pp) @ [EvUnregister cid]" using session(2) True by simp
      have u: "unregisters ?tr = 1" "registers ?tr = 1"
        unfolding tr using c t by (simp_all add: counts_simps unregisters_append registers_append)
      show ?thesis using u t tr by (auto simp: sessionCreated_def)
    next
      case False
      with e have t: "tr0 = []" by auto
      have tr: "?tr = ?lookup # ?pp" using session(2) False t by simp
      have u: "unregisters ?tr = 0" "registers ?tr = 0"
        unfolding tr using c by (simp_all add: counts_simps)
      show ?thesis using u by (simp add: sessionCreated_def)
    qed
  qed
qed

lemma placeAndPoll_outcome:
  assumes "fst (placeAndPoll cfg env q st cid m iv) = (200, CallOutcome out)"
  shows "o_success out = truthy (fst (pollLoop m iv env cid 0 None None))
       \<and> o_interactionId out = orNull (fst (pollLoop m iv env cid 0 None None))
       \<and> o_ucid out = orNull (orElse (if truthy st then fst (getUcidFromJava cfg env (strOrEmpty st)) else None)
                                     (fst (snd (pollLoop m iv env cid 0 None None))))
       \<and> o_clientId out = cid"
proof -
  obtain i u tr where r: "pollLoop m iv env cid 0 None None = (i, u, tr)"
    by (cases "pollLoop m iv env cid 0 None None") auto
  show ?thesis
  proof (cases "makecallAnswer env")
    case (Throws msg)
    with assms show ?thesis by (simp add: placeAndPoll_def Let_def)
  next
    case (Returns x)
    with assms r show ?thesis by (auto simp: placeAndPoll_def Let_def)
  qed
qed

lemma placeAndPoll_ok:
  assumes "makecallAnswer env = Returns x"
  shows "\<exists>out. fst (placeAndPoll cfg env q st cid m iv) = (200, CallOutcome out)"
  using assms by (simp add: placeAndPoll_def Let_def split: prod.splits)


lemmas onex_eval =
  startcall_def placeAndPoll_def ensureClient_def unregisterClient_def getUcidFromJava_def
  getStationByIp_def buildBaseUrl_def hostChar_def insertOnexCallLog_def withPrefix_def
  toLowerCase_def lowerChar_def demoOnexConfig_def demoOnexEnv_def demoCall_def
  truthy_def strOrEmpty_def orElse_def orNull_def trim_def isWs_def Let_def
  polls_def unregisters_def registers_def sessionCreated_def registeredId_def sideChannel_def

theorem startcall_teardown_once_witness:
  "sessionCreated (demoOnexEnv (\<lambda>n. PollNoVoice) (JavaThrows ''down'') (Throws ''ECONNREFUSED''))
     (snd (startcall demoOnexConfig
        (demoOnexEnv (\<lambda>n. PollNoVoice) (JavaThrows ''down'') (Throws ''ECONNREFUSED'')) (demoCall None)))
   \<and> fst (fst (startcall demoOnexConfig
        (demoOnexEnv (\<lambda>n. PollNoVoice) (JavaThrows ''down'') (Throws ''ECONNREFUSED'')) (demoCall None))) = 500
   \<and> unregisters (snd (startcall demoOnexConfig
        (demoOnexEnv (\<lambda>n. PollNoVoice) (JavaThrows ''down'') (Throws ''ECONNREFUSED'')) (demoCall None))) = 1
   \<and> truthy (clientid (demoCall (Some ''mine'')))
   \<and> unregisters (snd (startcall demoOnexConfig
        (demoOnexEnv (\<lambda>n. PollNoVoice) (JavaThrows ''down'') (Returns ())) (demoCall (Some ''mine'')))) = 0"
proof -
  let ?e1 = "demoOnexEnv (\<lambda>n. PollNoVoice) (JavaThrows ''down'') (Throws ''ECONNREFUSED'')"
  let ?e2 = "demoOnexEnv (\<lambda>n. PollNoVoice) (JavaThrows ''down'') (Returns ())"
  have tr: "startcall demoOnexConfig ?e1 (demoCall None)
      = ((500, ErrorMessage ''ECONNREFUSED''),
         [EvStationLookup ''10.0.0.5'', EvRegister ''CRM_amal_T1_1700000000000'',
          EvJavaMonitor ''4001'', EvMakeCall ''c1'' ''90791234567'' ''10.0.0.5'', EvUnregister ''c1''])"
    by (simp add: onex_eval)
  have s: "sessionCreated ?e1 (snd (startcall demoOnexConfig ?e1 (demoCall None)))"
    unfolding tr by (simp add: onex_eval)
  have t: "truthy (clientid (demoCall (Some ''mine'')))" by (simp add: onex_eval)
  from startcall_teardown_once [of demoOnexConfig ?e1 "demoCall None"] s
  have a: "unregisters (snd (startcall demoOnexConfig ?e1 (demoCall None))) = 1" by simp
  from startcall_teardown_once [of demoOnexConfig ?e2 "demoCall (Some ''mine'')"] t
  have b: "unregisters (snd (startcall demoOnexConfig ?e2 (demoCall (Some ''mine'')))) = 0" by blast
  show ?thesis using s a b t tr by simp
qed

text \<open>
  C2. In the outcome record of \<open>/startcall\<close> the correlation id is the monitor's value
  when the monitor produced one, otherwise the notification's when that produced one,
  otherwise null; the success flag is whether the polling obtained an interaction id,
  which does not involve the correlation id; and once the call is placed the answer is
  the 200 outcome record whatever the two channels produce.
\<close>

theorem ucid_side_channel_first:
  assumes "fst (startcall cfg env q) = (200, CallOutcome out)"
    and "UCID_POLL_MAX_ATTEMPTS cfg = Some m" and "UCID_POLL_INTERVAL_MS cfg = Some iv"
  shows "(truthy (sideChannel cfg env) \<longrightarrow> o_ucid out = sideChannel cfg env)
       \<and> (\<not> truthy (sideChannel cfg env)
            \<and> truthy (fst (snd (pollLoop m iv env (o_clientId out) 0 None None))) \<longrightarrow>
            o_ucid out = fst (snd (pollLoop m iv env (o_clientId out) 0 None None)))
       \<and> (\<not> truthy (sideChannel cfg env)
            \<and> \<not> truthy (fst (snd (pollLoop m iv env (o_clientId out) 0 None None))) \<longrightarrow>
            o_ucid out = None)
       \<and> o_success out = truthy (fst (pollLoop m iv env (o_clientId out) 0 None None))
       \<and> (\<forall>st cid x. makecallAnswer env = Returns x \<longrightarrow>
            (\<exists>out'. fst (placeAndPoll cfg env q st cid m iv) = (200, CallOutcome out')))"
proof -
  from startcall_trace [of cfg env q] assms(1) obtain cid m' iv' where
    c: "UCID_POLL_MAX_ATTEMPTS cfg = Some m'" "UCID_POLL_INTERVAL_MS cfg = Some iv'"
       "fst (startcall cfg env q) = fst (placeAndPoll cfg env q (getStationByIp env) cid m' iv')"
    by auto
  with assms have pp: "fst (placeAndPoll cfg env q (getStationByIp env) cid m iv) = (200, CallOutcome out)"
    by simp
  note o = placeAndPoll_outcome [OF pp]
  then have cid: "o_clientId out = cid" by simp
  have u: "o_ucid out = orNull (orElse (sideChannel cfg env)
                           (fst (snd (pollLoop m iv env (o_clientId out) 0 None None))))"
    using o unfolding cid by (simp add: sideChannel_def)
  have s: "o_success out = truthy (fst (pollLoop m iv env (o_clientId out) 0 None None))"
    using o unfolding cid by simp
  have ok: "\<forall>st cid x. makecallAnswer env = Returns x \<longrightarrow>
            (\<exists>out'. fst (placeAndPoll cfg env q st cid m iv) = (200, CallOutcome out'))"
    using placeAndPoll_ok by blast
  show ?thesis
    using s ok unfolding u by (auto simp: orNull_def orElse_def truthy_def split: option.splits)
qed


lemma demo_pollLoop:
  "pollLoop 3 500 (demoOnexEnv demoAnswers j c) ''c1'' 0 None None
     = (Some ''VI1'', Some ''000123'', [EvPoll ''c1'', EvSleep 500, EvPoll ''c1''])"
proof -
  have a: "pollAnswer (demoOnexEnv demoAnswers j c) 2 = PollVoice (Some ''VI1'') (Some ''000123'')"
    by (simp add: demoOnexEnv_def demoAnswers_def)
  have b: "\<forall>i. 1 \<le> i \<and> i < 2 \<longrightarrow> \<not> isVoice (pollAnswer (demoOnexEnv demoAnswers j c) i)"
    by (auto simp: demoOnexEnv_def demoAnswers_def isVoice_def)
  have r: "replicate (2 - 1) x = [x]" for x :: "onex_event list"
    by (simp add: numeral_2_eq_2)
  from pollLoop_stops_at_voice [OF _ _ b a, of 3 500 "''c1''"]
  show ?thesis by (simp add: orNull_def truthy_def r)
qed

theorem ucid_side_channel_first_witness:
  "fst (startcall demoOnexConfig (demoOnexEnv demoAnswers (JavaData True (Some ''000999'')) (Returns ()))
         (demoCall None))
     = (200, CallOutcome \<lparr> o_success = True, o_ucid = Some ''000999'', o_interactionId = Some ''VI1'',
                            o_clientId = ''c1'', o_dialed = Some ''0791234567'', o_station = Some ''4001'' \<rparr>)
   \<and> UCID_POLL_MAX_ATTEMPTS demoOnexConfig = Some 3 \<and> UCID_POLL_INTERVAL_MS demoOnexConfig = Some 500
   \<and> sideChannel demoOnexConfig (demoOnexEnv demoAnswers (JavaData True (Some ''000999'')) (Returns ()))
       = Some ''000999''
   \<and> fst (snd (pollLoop 3 500 (demoOnexEnv demoAnswers (JavaData True (Some ''000999'')) (Returns ()))
         ''c1'' 0 None None)) = Some ''000123''
   \<and> truthy (sideChannel demoOnexConfig
         (demoOnexEnv demoAnswers (JavaData True (Some ''000999'')) (Returns ())))
   \<and> o_ucid \<lparr> o_success = True, o_ucid = Some ''000999'', o_interactionId = Some ''VI1'',
               o_clientId = ''c1'', o_dialed = Some ''0791234567'', o_station = Some ''4001'' \<rparr>
       = sideChannel demoOnexConfig (demoOnexEnv demoAnswers (JavaData True (Some ''000999'')) (Returns ()))"
proof -
  let ?env = "demoOnexEnv demoAnswers (JavaData True (Some ''000999'')) (Returns ())"
  let ?out = "\<lparr> o_success = True, o_ucid = Some ''000999'', o_interactionId = Some ''VI1'',
                o_clientId = ''c1'', o_dialed = Some ''0791234567'', o_station = Some ''4001'' \<rparr>"
  have p: "pollLoop 3 500 ?env ''c1'' 0 None None
     = (Some ''VI1'', Some ''000123'', [EvPoll ''c1'', EvSleep 500, EvPoll ''c1''])"
    by (rule demo_pollLoop)
  have r: "fst (startcall demoOnexConfig ?env (demoCall None)) = (200, CallOutcome ?out)"
    by (simp add: startcall_def placeAndPoll_def ensureClient_def unregisterClient_def
          getUcidFromJava_def getStationByIp_def buildBaseUrl_def hostChar_def insertOnexCallLog_def
          withPrefix_def toLowerCase_def lowerChar_def demoOnexConfig_def demoCall_def
          truthy_def strOrEmpty_def orElse_def orNull_def trim_def isWs_def Let_def
          p [unfolded demoOnexEnv_def] demoOnexEnv_def)
  have m: "UCID_POLL_MAX_ATTEMPTS demoOnexConfig = Some 3" by (simp add: demoOnexConfig_def)
  have iv: "UCID_POLL_INTERVAL_MS demoOnexConfig = Some 500" by (simp add: demoOnexConfig_def)
  have s: "sideChannel demoOnexConfig ?env = Some ''000999''" by (simp add: onex_eval)
  then have t: "truthy (sideChannel demoOnexConfig ?env)" by (simp add: truthy_def)
  from ucid_side_channel_first [OF r m iv] t
  have "o_ucid ?out = sideChannel demoOnexConfig ?env" by blast
  with r m iv s t p show ?thesis by simp
qed

text \<open>
  C3. The polling loop issues at most \<open>UCID_POLL_MAX_ATTEMPTS\<close> polls (none for a maximum
  that is not positive), in the loop alone and in the whole request. When the k-th answer
  is the first \<open>VoiceInteractionCreated\<close>, the loop ends with the k-th poll: k polls, k - 1
  delays, and the ids that answer carries. When no answer up to the maximum is one, be it
  that the polls throw, every attempt is used, each followed by its delay, and the loop
  returns without ids; a throwing poll is not a \<open>VoiceInteractionCreated\<close>, and with the
  call placed the answer of the request is 200.
\<close>

theorem polling_bounded_stops_when_found:
  "polls (snd (snd (pollLoop m iv env cid 0 None None))) \<le> nat m
   \<and> (UCID_POLL_MAX_ATTEMPTS cfg = Some m \<longrightarrow> polls (snd (startcall cfg env q)) \<le> nat m)
   \<and> (1 \<le> k \<and> int k \<le> m \<and> (\<forall>j. 1 \<le> j \<and> j < k \<longrightarrow> \<not> isVoice (pollAnswer env j))
        \<and> pollAnswer env k = PollVoice oid uc \<longrightarrow>
        pollLoop m iv env cid 0 None None
          = (orNull oid, orNull uc, concat (replicate (k - 1) [EvPoll cid, EvSleep iv]) @ [EvPoll cid]))
   \<and> ((\<forall>j. 1 \<le> j \<and> int j \<le> m \<longrightarrow> \<not> isVoice (pollAnswer env j)) \<longrightarrow>
        pollLoop m iv env cid 0 None None
          = (None, None, concat (replicate (nat m) [EvPoll cid, EvSleep iv])))
   \<and> (\<forall>msg. \<not> isVoice (PollThrows msg))
   \<and> (makecallAnswer env = Returns () \<longrightarrow> fst (fst (placeAndPoll cfg env q st cid m iv)) = 200)"
proof -
  have a: "polls (snd (snd (pollLoop m iv env cid 0 None None))) \<le> nat m"
    using pollLoop_counts [of m iv env cid 0 None None] by simp
  have b: "polls (snd (startcall cfg env q)) \<le> nat m" if c: "UCID_POLL_MAX_ATTEMPTS cfg = Some m"
  proof -
    let ?tr = "snd (startcall cfg env q)"
    let ?lookup = "EvStationLookup (strOrEmpty (deviceIp q))"
    from startcall_trace [of cfg env q] c consider
        (early) "?tr = []"
      | (failed) msg tr0 where "ensureClient env (clientNameOf env q) (clientid q) = (Throws msg, tr0)"
          "?tr = ?lookup # tr0"
      | (session) cid' created tr0 iv' where
          "ensureClient env (clientNameOf env q) (clientid q) = (Returns (cid', created), tr0)"
          "?tr = ?lookup # tr0 @ snd (placeAndPoll cfg env q (getStationByIp env) cid' m iv')
                  @ (if created then [EvUnregister cid'] else [])"
      by auto
    then show ?thesis
    proof cases
      case early
      then show ?thesis by (simp add: counts_simps)
    next
      case failed
      from ensureClient_Throws [OF failed(1)] failed(2) show ?thesis by (simp add: counts_simps)
    next
      case session
      have "tr0 = [] \<or> tr0 = [EvRegister (clientNameOf env q)]"
        using ensureClient_Returns [OF session(1)] by (cases created) auto
      then have "polls tr0 = 0" by (auto simp: counts_simps)
      then show ?thesis
        unfolding session(2)
        using placeAndPoll_counts [of cfg env q "getStationByIp env" cid' m iv']
        by (simp add: counts_simps polls_append)
    qed
  qed
  have c: "\<forall>msg. \<not> isVoice (PollThrows msg)" by (simp add: isVoice_def)
  have d: "makecallAnswer env = Returns () \<longrightarrow> fst (fst (placeAndPoll cfg env q st cid m iv)) = 200"
    using placeAndPoll_ok [of env "()" cfg q st cid m iv] by auto
  show ?thesis
    using a b c d pollLoop_stops_at_voice [of k m env oid uc iv cid] pollLoop_all_miss [of m env iv cid]
    by (intro conjI impI) auto
qed

theorem polling_bounded_stops_when_found_witness:
  "UCID_POLL_MAX_ATTEMPTS demoOnexConfig = Some 3
   \<and> (1::nat) \<le> 2 \<and> int 2 \<le> 3
   \<and> \<not> isVoice (pollAnswer (demoOnexEnv demoAnswers (JavaThrows ''down'') (Returns ())) 1)
   \<and> pollAnswer (demoOnexEnv demoAnswers (JavaThrows ''down'') (Returns ())) 1 = PollThrows ''timeout''
   \<and> pollAnswer (demoOnexEnv demoAnswers (JavaThrows ''down'') (Returns ())) 2
       = PollVoice (Some ''VI1'') (Some ''000123'')
   \<and> pollLoop 3 500 (demoOnexEnv demoAnswers (JavaThrows ''down'') (Returns ())) ''c1'' 0 None None
       = (Some ''VI1'', Some ''000123'', [EvPoll ''c1'', EvSleep 500, EvPoll ''c1''])
   \<and> polls (snd (startcall demoOnexConfig (demoOnexEnv demoAnswers (JavaThrows ''down'') (Returns ()))
         (demoCall None))) \<le> 3
   \<and> pollAnswer (demoOnexEnv (\<lambda>n. PollThrows ''timeout'') (JavaThrows ''down'') (Returns ())) 3
       = PollThrows ''timeout''
   \<and> pollLoop 3 500 (demoOnexEnv (\<lambda>n. PollThrows ''timeout'') (JavaThrows ''down'') (Returns ()))
         ''c1'' 0 None None
       = (None, None, [EvPoll ''c1'', EvSleep 500, EvPoll ''c1'', EvSleep 500, EvPoll ''c1'', EvSleep 500])
   \<and> makecallAnswer (demoOnexEnv (\<lambda>n. PollThrows ''timeout'') (JavaThrows ''down'') (Returns ())) = Returns ()"
proof -
  let ?env = "demoOnexEnv demoAnswers (JavaThrows ''down'') (Returns ())"
  let ?env2 = "demoOnexEnv (\<lambda>n. PollThrows ''timeout'') (JavaThrows ''down'') (Returns ())"
  have m: "UCID_POLL_MAX_ATTEMPTS demoOnexConfig = Some 3" by (simp add: demoOnexConfig_def)
  have a1: "pollAnswer ?env 1 = PollThrows ''timeout''" by (simp add: demoOnexEnv_def demoAnswers_def)
  have a2: "pollAnswer ?env 2 = PollVoice (Some ''VI1'') (Some ''000123'')"
    by (simp add: demoOnexEnv_def demoAnswers_def)
  have b: "\<forall>j. 1 \<le> j \<and> j < 2 \<longrightarrow> \<not> isVoice (pollAnswer ?env j)"
    by (auto simp: demoOnexEnv_def demoAnswers_def isVoice_def)
  have c: "\<forall>j. 1 \<le> j \<and> int j \<le> 3 \<longrightarrow> \<not> isVoice (pollAnswer ?env2 j)"
    by (simp add: demoOnexEnv_def isVoice_def)
  have mk: "makecallAnswer ?env2 = Returns ()" by (simp add: demoOnexEnv_def)
  have r2: "replicate (2 - 1) x = [x]" for x :: "onex_event list"
    by (simp add: numeral_2_eq_2)
  have r3: "replicate (nat 3) x = [x, x, x]" for x :: "onex_event list"
    by (simp add: numeral_3_eq_3)
  note t1 = polling_bounded_stops_when_found [of 3 500 ?env "''c1''" demoOnexConfig "demoCall None" 2
              "Some ''VI1''" "Some ''000123''" "Some ''4001''"]
  note t2 = polling_bounded_stops_when_found [of 3 500 ?env2 "''c1''" demoOnexConfig "demoCall None" 2
              "Some ''VI1''" "Some ''000123''" "Some ''4001''"]
  from t1 a2 b have p1: "pollLoop 3 500 ?env ''c1'' 0 None None
       = (Some ''VI1'', Some ''000123'', [EvPoll ''c1'', EvSleep 500, EvPoll ''c1''])"
    by (simp add: orNull_def truthy_def r2)
  from t1 m have p2: "polls (snd (startcall demoOnexConfig ?env (demoCall None))) \<le> 3" by simp
  from t2 c have "pollLoop 3 500 ?env2 ''c1'' 0 None None
       = (None, None, concat (replicate (nat 3) [EvPoll ''c1'', EvSleep 500]))"
    by blast
  then have p3: "pollLoop 3 500 ?env2 ''c1'' 0 None None
       = (None, None, [EvPoll ''c1'', EvSleep 500, EvPoll ''c1'', EvSleep 500, EvPoll ''c1'', EvSleep 500])"
    by (simp add: numeral_3_eq_3)
  have b1: "\<not> isVoice (pollAnswer ?env 1)" using b by simp
  have c3: "pollAnswer ?env2 3 = PollThrows ''timeout''" by (simp add: demoOnexEnv_def)
  show ?thesis using m a1 a2 b1 c3 mk p1 p2 p3 by simp
qed

text \<open>
  C8. \<open>insertOnexCallLog\<close> tests the interaction id and the client id only. With both
  present and no correlation id the insert is issued, with a null \<open>ucid\<close>: a run of
  \<open>/startcall\<close> whose notification carries an \<open>ObjectId\<close> and no \<open>UCID\<close>, the monitor being
  down, ends with that insert.
\<close>

theorem call_log_insert_without_ucid:
  "insertOnexCallLog (demoOnexEnv (\<lambda>n. PollVoice (Some ''VI1'') None) (JavaThrows ''down'') (Returns ()))
       None (Some ''T1'') (Some ''0791234567'') (Some ''10.0.0.5'') (Some ''c1'') (Some ''VI1'') (Some ''amal'')
     = [EvInsertCallLog \<lparr> cr_ucid = None, cr_ticket_number = ''T1'', cr_client_phone = ''0791234567'',
                           cr_device_ip = ''10.0.0.5'', cr_client_id = ''c1'', cr_interaction_id = ''VI1'',
                           cr_agent_user = Some ''amal'' \<rparr>]
   \<and> startcall demoOnexConfig
        (demoOnexEnv (\<lambda>n. PollVoice (Some ''VI1'') None) (JavaThrows ''down'') (Returns ())) (demoCall None)
     = ((200, CallOutcome \<lparr> o_success = True, o_ucid = None, o_interactionId = Some ''VI1'',
                             o_clientId = ''c1'', o_dialed = Some ''0791234567'',
                             o_station = Some ''4001'' \<rparr>),
        [EvStationLookup ''10.0.0.5'', EvRegister ''CRM_amal_T1_1700000000000'',
         EvJavaMonitor ''4001'', EvMakeCall ''c1'' ''90791234567'' ''10.0.0.5'', EvPoll ''c1'',
         EvInsertCallLog \<lparr> cr_ucid = None, cr_ticket_number = ''T1'', cr_client_phone = ''0791234567'',
                            cr_device_ip = ''10.0.0.5'', cr_client_id = ''c1'',
                            cr_interaction_id = ''VI1'', cr_agent_user = Some ''amal'' \<rparr>,
         EvUnregister ''c1''])"
  by (simp add: onex_eval pollLoop.simps)

theorem call_log_insert_without_ucid_witness:
  "\<exists>pre row post.
     snd (startcall demoOnexConfig
            (demoOnexEnv (\<lambda>n. PollVoice (Some ''VI1'') None) (JavaThrows ''down'') (Returns ()))
            (demoCall None))
       = pre @ EvInsertCallLog row # post
     \<and> cr_ucid row = None \<and> cr_interaction_id row = ''VI1'' \<and> cr_client_id row = ''c1''"
proof -
  let ?row = "\<lparr> cr_ucid = None, cr_ticket_number = ''T1'', cr_client_phone = ''0791234567'',
                cr_device_ip = ''10.0.0.5'', cr_client_id = ''c1'', cr_interaction_id = ''VI1'',
                cr_agent_user = Some ''amal'' \<rparr>"
  from call_log_insert_without_ucid
  have "snd (startcall demoOnexConfig
            (demoOnexEnv (\<lambda>n. PollVoice (Some ''VI1'') None) (JavaThrows ''down'') (Returns ()))
            (demoCall None))
       = [EvStationLookup ''10.0.0.5'', EvRegister ''CRM_amal_T1_1700000000000'',
          EvJavaMonitor ''4001'', EvMakeCall ''c1'' ''90791234567'' ''10.0.0.5'', EvPoll ''c1'']
         @ EvInsertCallLog ?row # [EvUnregister ''c1'']"
    by simp
  then show ?thesis
    by (intro exI [of _ "[EvStationLookup ''10.0.0.5'', EvRegister ''CRM_amal_T1_1700000000000'',
          EvJavaMonitor ''4001'', EvMakeCall ''c1'' ''90791234567'' ''10.0.0.5'', EvPoll ''c1'']"]
          exI [of _ ?row] exI [of _ "[EvUnregister ''c1'']"]) simp
qed

end
